theory Spec2Isabelle
  imports Main
begin

section \<open>JavaScript values\<close>

text \<open>
  Response bodies, thrown values and unvalidated form values are untyped at run time
  (TypeScript types are erased), so they are modelled by one datatype of values.
  Of the numbers, \<open>JNum\<close> carries the integers and \<open>JNaN\<close> is \<open>NaN\<close> (which no
  response body holds, but an empty number input does); fractions and infinities are
  not represented. An object is the list of its own properties in insertion order, the
  first binding of a key being the one that is read.
\<close>

datatype json =
    JUndefined
  | JNull
  | JBool bool
  | JNum int
  | JNaN
  | JStr string
  | JArr "json list"
  | JObj "(string \<times> json) list"

text \<open>ToBoolean: what \<open>if (v)\<close>, \<open>!v\<close> and \<open>v || w\<close> test.\<close>

fun truthy :: "json \<Rightarrow> bool" where
  "truthy JUndefined = False"
| "truthy JNull = False"
| "truthy (JBool b) = b"
| "truthy (JNum n) = (n \<noteq> 0)"
| "truthy JNaN = False"
| "truthy (JStr s) = (s \<noteq> [])"
| "truthy (JArr xs) = True"
| "truthy (JObj kvs) = True"

fun nullish :: "json \<Rightarrow> bool" where
  "nullish JUndefined = True"
| "nullish JNull = True"
| "nullish v = False"

text \<open>
  \<open>v.k\<close> on a value that is neither \<open>null\<close> nor \<open>undefined\<close>, for a key
  \<open>k\<close> that is not a built-in property: a missing key reads as \<open>undefined\<close>.
  Reading a property of \<open>null\<close> or \<open>undefined\<close> throws a TypeError; every caller
  below tests \<open>nullish\<close> first and models the throw itself.
\<close>

fun js_get :: "json \<Rightarrow> string \<Rightarrow> json" where
  "js_get (JObj kvs) k = (case map_of kvs k of Some v \<Rightarrow> v | None \<Rightarrow> JUndefined)"
| "js_get v k = JUndefined"

text \<open>\<open>v?.k\<close>: optional chaining yields \<open>undefined\<close> on a nullish receiver.\<close>

definition js_get_opt :: "json \<Rightarrow> string \<Rightarrow> json" where
  "js_get_opt v k = (if nullish v then JUndefined else js_get v k)"

text \<open>\<open>a || b\<close>.\<close>

definition js_or :: "json \<Rightarrow> json \<Rightarrow> json" where
  "js_or a b = (if truthy a then a else b)"

fun is_array :: "json \<Rightarrow> bool" where
  "is_array (JArr xs) = True"
| "is_array v = False"

text \<open>
  \<open>String(v)\<close>, the conversion a template literal applies. An integer prints in
  plain decimal notation, which is what JavaScript prints for the integers a double
  holds exactly and that are below \<open>10^21\<close> in absolute value. A \<open>JNum\<close> stands for
  the JavaScript number of the same value within that range only: beyond it JavaScript
  rounds the number and prints it in exponent notation, and fractions have no \<open>JNum\<close>.
\<close>

function nat_digits :: "nat \<Rightarrow> string" where
  "nat_digits n =
     (if n < 10 then [''0123456789'' ! n]
      else nat_digits (n div 10) @ [''0123456789'' ! (n mod 10)])"
  by pat_completeness auto
termination
  by (relation "measure id") auto

definition int_string :: "int \<Rightarrow> string" where
  "int_string i = (if i < 0 then CHR ''-'' # nat_digits (nat (- i)) else nat_digits (nat i))"

fun join_comma :: "string list \<Rightarrow> string" where
  "join_comma [] = []"
| "join_comma [s] = s"
| "join_comma (s # t # ss) = s @ '','' @ join_comma (t # ss)"

fun js_string :: "json \<Rightarrow> string" where
  "js_string JUndefined = ''undefined''"
| "js_string JNull = ''null''"
| "js_string (JBool b) = (if b then ''true'' else ''false'')"
| "js_string (JNum n) = int_string n"
| "js_string JNaN = ''NaN''"
| "js_string (JStr s) = s"
| "js_string (JArr xs) = join_comma (map (\<lambda>x. if nullish x then [] else js_string x) xs)"
| "js_string (JObj kvs) = ''[object Object]''"

section \<open>The auth-aware request client\<close>

subsection \<open>Requests, responses, errors\<close>

datatype http_method = GET | POST | PUT | DELETE | PATCH

text \<open>
  An axios request config: the fields the client reads or writes. \<open>authorization\<close> is
  \<open>headers.Authorization\<close>, \<open>retry\<close> is the \<open>_retry\<close> marker (absent reads as
  false). The base URL, the JSON content type and \<open>withCredentials\<close> are the same for
  every request and are left out.
\<close>

record request =
  req_method :: http_method
  url :: string
  authorization :: "string option"
  body :: json
  retry :: bool

record response =
  status :: nat
  data :: json

text \<open>What the network gives back: a response of any status, or none at all.\<close>

datatype reply = Reply response | NetworkError

text \<open>
  The values a promise of the client rejects with: an \<open>AxiosError\<close> with the config
  of the failed request and the response when there was one, \<open>new Error(msg)\<close>, and
  the TypeError of destructuring a nullish value.
\<close>

datatype err =
    AxiosError request "response option"
  | Error string
  | TypeError

datatype outcome = Resolved response | Rejected err

text \<open>
  The browser state the client touches: the two cookies, \<open>window.location.href\<close>, and
  (as a trace, for counting) the requests that went out on the network, oldest first.
  Cookie expiry (1 and 7 days) is not modelled: no time passes in a run.
\<close>

record browser =
  accessToken :: "string option"
  refreshToken :: "string option"
  location :: string
  sent :: "request list"

text \<open>
  The surroundings of the client: the server, which answers a request knowing the
  requests that came before, and the string the cookie library stores for a value
  handed to \<open>Cookies.set\<close>.
\<close>

record env =
  server :: "request list \<Rightarrow> request \<Rightarrow> reply"
  cookie_write :: "json \<Rightarrow> string"

text \<open>
  A call of the client either settles (\<open>Some\<close>) or has not settled within the nesting
  depth it was given (\<open>None\<close>); the browser state is returned in both cases.
\<close>

type_synonym client = "browser \<Rightarrow> request \<Rightarrow> outcome option \<times> browser"

subsection \<open>Interceptors\<close>

text \<open>\<open>if (token)\<close> on the result of \<open>Cookies.get\<close>: set and not the empty string.\<close>

fun present :: "string option \<Rightarrow> bool" where
  "present None = False"
| "present (Some t) = (t \<noteq> [])"

definition request_interceptor :: "browser \<Rightarrow> request \<Rightarrow> request" where
  "request_interceptor s config =
     (case accessToken s of
        None \<Rightarrow> config
      | Some token \<Rightarrow>
          if token \<noteq> [] then config\<lparr>authorization := Some (''Bearer '' @ token)\<rparr>
          else config)"

text \<open>\<open>api.post('/auth/refresh', { refreshToken })\<close>\<close>

definition refresh_request :: "string \<Rightarrow> request" where
  "refresh_request rt =
     \<lparr>req_method = POST, url = ''/auth/refresh'', authorization = None,
      body = JObj [(''refreshToken'', JStr rt)], retry = False\<rparr>"

text \<open>
  The body of the \<open>try\<close> block up to, and without, its last statement
  \<open>return api(originalRequest)\<close>: it throws (\<open>Inl\<close>) or has stored the new tokens and
  yields the new access token (\<open>Inr\<close>). \<open>api\<close> is the client the refresh goes through.
\<close>

definition refresh_path :: "client \<Rightarrow> env \<Rightarrow> browser \<Rightarrow> (err + json) option \<times> browser" where
  "refresh_path api e s =
     (case refreshToken s of
        None \<Rightarrow> (Some (Inl (Error ''No refresh token available'')), s)
      | Some rt \<Rightarrow>
          if rt = [] then (Some (Inl (Error ''No refresh token available'')), s)
          else
            (case api s (refresh_request rt) of
               (None, s1) \<Rightarrow> (None, s1)
             | (Some (Rejected refreshError), s1) \<Rightarrow> (Some (Inl refreshError), s1)
             | (Some (Resolved r), s1) \<Rightarrow>
                 if nullish (data r) then (Some (Inl TypeError), s1)
                 else
                   let accessToken' = js_get (data r) ''accessToken'';
                       newRefreshToken = js_get (data r) ''refreshToken''
                   in (Some (Inr accessToken'),
                       s1\<lparr>accessToken := Some (cookie_write e accessToken'),
                          refreshToken := Some (cookie_write e newRefreshToken)\<rparr>)))"

text \<open>The \<open>catch (refreshError)\<close> block.\<close>

definition refresh_failed :: "browser \<Rightarrow> err \<Rightarrow> outcome option \<times> browser" where
  "refresh_failed s refreshError =
     (Some (Rejected refreshError),
      s\<lparr>accessToken := None, refreshToken := None, location := ''/login''\<rparr>)"

fun is_401 :: "response option \<Rightarrow> bool" where
  "is_401 None = False"
| "is_401 (Some r) = (status r = 401)"

text \<open>
  The rejection handler of the response interceptor. The retry is returned without
  \<open>await\<close>, so a rejection of the retry is not caught by the \<open>catch\<close> block.
\<close>

fun response_rejected :: "client \<Rightarrow> env \<Rightarrow> browser \<Rightarrow> err \<Rightarrow> outcome option \<times> browser" where
  "response_rejected api e s (AxiosError config resp) =
     (if is_401 resp \<and> \<not> retry config then
        let originalRequest = config\<lparr>retry := True\<rparr> in
        (case refresh_path api e s of
           (None, s1) \<Rightarrow> (None, s1)
         | (Some (Inl refreshError), s1) \<Rightarrow> refresh_failed s1 refreshError
         | (Some (Inr accessToken'), s2) \<Rightarrow>
             api s2 (originalRequest\<lparr>authorization := Some (''Bearer '' @ js_string accessToken')\<rparr>))
      else (Some (Rejected (AxiosError config resp)), s))"
| "response_rejected api e s error = (Some (Rejected error), s)"

subsection \<open>The client\<close>

text \<open>
  \<open>api(config)\<close>: request interceptor, dispatch, then the response interceptors. A
  status in \<open>200..299\<close> resolves; anything else, and a missing response, rejects with an
  \<open>AxiosError\<close> that goes through \<open>response_rejected\<close>. The interceptor calls the client
  again, and nothing in the code bounds how often: the first argument bounds the depth of
  these nested calls, and \<open>None\<close> is the answer when it is used up.
\<close>

primrec api_call :: "nat \<Rightarrow> env \<Rightarrow> browser \<Rightarrow> request \<Rightarrow> outcome option \<times> browser" where
  "api_call 0 e s req = (None, s)"
| "api_call (Suc n) e s req =
     (let config = request_interceptor s req;
          s1 = s\<lparr>sent := sent s @ [config]\<rparr>
      in case server e (sent s) config of
           Reply r \<Rightarrow>
             if 200 \<le> status r \<and> status r < 300 then (Some (Resolved r), s1)
             else response_rejected (api_call n e) e s1 (AxiosError config (Some r))
         | NetworkError \<Rightarrow> response_rejected (api_call n e) e s1 (AxiosError config None))"

definition is_refresh :: "request \<Rightarrow> bool" where
  "is_refresh r = (req_method r = POST \<and> url r = ''/auth/refresh'')"

definition refresh_calls :: "request list \<Rightarrow> nat" where
  "refresh_calls rs = length (filter is_refresh rs)"

text \<open>The \<open>response\<close> of the \<open>AxiosError\<close> a reply is rejected with.\<close>

fun response_of :: "reply \<Rightarrow> response option" where
  "response_of (Reply r) = Some r"
| "response_of NetworkError = None"

subsection \<open>Concrete servers, sessions and requests\<close>

text \<open>A server that answers every request, the refresh request included, with 401.\<close>

definition deny_all :: env where
  "deny_all =
     \<lparr>server = (\<lambda>h r. Reply \<lparr>status = 401, data = JNull\<rparr>), cookie_write = js_string\<rparr>"

text \<open>A server that answers 403 to the refresh request and 401 to everything else.\<close>

definition refuse_refresh :: env where
  "refuse_refresh =
     \<lparr>server = (\<lambda>h r. if url r = ''/auth/refresh'' then Reply \<lparr>status = 403, data = JNull\<rparr>
                        else Reply \<lparr>status = 401, data = JNull\<rparr>),
      cookie_write = js_string\<rparr>"

definition get_users :: request where
  "get_users =
     \<lparr>req_method = GET, url = ''/users'', authorization = None, body = JUndefined, retry = False\<rparr>"

definition retried_get_users :: request where
  "retried_get_users = get_users\<lparr>retry := True\<rparr>"

definition stale_session :: browser where
  "stale_session =
     \<lparr>accessToken = Some ''a0'', refreshToken = Some ''r0'', location = ''/users'', sent = []\<rparr>"

definition no_refresh_session :: browser where
  "no_refresh_session =
     \<lparr>accessToken = Some ''a0'', refreshToken = None, location = ''/users'', sent = []\<rparr>"

section \<open>Error message extraction\<close>

text \<open>
  A thrown value as the \<open>catch\<close> blocks see it. Of an \<open>AxiosError\<close> the code reads
  \<open>isAxiosError\<close> and \<open>response\<close> (with \<open>status\<close> and \<open>data\<close>); the text of a
  TypeError depends on the engine and is left out.
\<close>

fun thrown :: "err \<Rightarrow> json" where
  "thrown (AxiosError config resp) =
     JObj [(''name'', JStr ''AxiosError''), (''isAxiosError'', JBool True),
           (''response'',
              case resp of
                None \<Rightarrow> JUndefined
              | Some r \<Rightarrow> JObj [(''status'', JNum (int (status r))), (''data'', data r)])]"
| "thrown (Error msg) = JObj [(''name'', JStr ''Error''), (''message'', JStr msg)]"
| "thrown TypeError = JObj [(''name'', JStr ''TypeError'')]"

text \<open>\<open>v.k\<close> with its failure: a TypeError on \<open>null\<close> and \<open>undefined\<close>.\<close>

definition js_read :: "json \<Rightarrow> string \<Rightarrow> err + json" where
  "js_read v k = (if nullish v then Inl TypeError else Inr (js_get v k))"

text \<open>\<open>thing !== null && typeof thing === 'object'\<close>\<close>

fun isObject :: "json \<Rightarrow> bool" where
  "isObject (JArr xs) = True"
| "isObject (JObj kvs) = True"
| "isObject v = False"

text \<open>\<open>axios.isAxiosError(payload)\<close>: an object whose \<open>isAxiosError\<close> is \<open>true\<close>.\<close>

definition isAxiosError :: "json \<Rightarrow> bool" where
  "isAxiosError payload = (isObject payload \<and> js_get payload ''isAxiosError'' = JBool True)"

text \<open>
  \<open>handleApiError\<close>. The result is declared a string, but \<open>message\<close> is returned as
  it came, so the result is a value; \<open>Inl\<close> would be a throw.
\<close>

definition handleApiError :: "json \<Rightarrow> err + json" where
  "handleApiError error =
     (if isAxiosError error then
        (case js_read error ''response'' of
           Inl t \<Rightarrow> Inl t
         | Inr resp \<Rightarrow>
             Inr (js_or (js_get_opt (js_get_opt resp ''data'') ''message'')
                        (JStr ''An error occurred'')))
      else Inr (JStr ''An unexpected error occurred''))"

text \<open>
  The message field of the structured server response a value carries:
  \<open>error.response.data.message\<close>, \<open>undefined\<close> where a link of the chain is missing.
\<close>

definition server_message :: "json \<Rightarrow> json" where
  "server_message error = js_get_opt (js_get_opt (js_get error ''response'') ''data'') ''message''"

text \<open>
  \<open>setError(handleApiError(err))\<close> in a \<open>catch\<close> block: the new error state, given the
  old one (which stays if the extractor throws).
\<close>

definition catch_error :: "err \<Rightarrow> json \<Rightarrow> json" where
  "catch_error err old = (case handleApiError (thrown err) of Inr m \<Rightarrow> m | Inl t \<Rightarrow> old)"

text \<open>An axios error for a 400 answer whose body has an empty message.\<close>

definition empty_message_error :: json where
  "empty_message_error =
     thrown (AxiosError get_users (Some \<lparr>status = 400, data = JObj [(''message'', JStr '''')]\<rparr>))"

definition no_response_error :: json where
  "no_response_error = thrown (AxiosError get_users None)"

section \<open>Page view-models\<close>

text \<open>
  A handler of a page runs up to an \<open>await\<close> on a call of the client and goes on when
  the call settles. Each handler below takes, for every call it awaits, what that call
  settles with (\<open>None\<close>: it never does, and the handler stays suspended), and records
  the requests it hands to the client in the \<open>calls\<close> field of the page state.
  Record fields share one name space, so the fields of each record carry a prefix
  (\<open>up_error\<close> is the \<open>error\<close> state of the users page); names of handlers that
  several pages have (\<open>onSubmit\<close>, \<open>fetchCompanies\<close>) are prefixed in the same way.
\<close>

text \<open>\<open>s.startsWith(p)\<close> and \<open>s.includes(t)\<close>\<close>

definition startsWith :: "string \<Rightarrow> string \<Rightarrow> bool" where
  "startsWith s p = (take (length p) s = p)"

fun js_includes :: "string \<Rightarrow> string \<Rightarrow> bool" where
  "js_includes [] t = (t = [])"
| "js_includes (c # s) t = (startsWith (c # s) t \<or> js_includes s t)"

text \<open>
  The form library and the input elements are not part of the repository. What is
  taken from them: a registered input, when it mounts, leaves the value the form has
  for its field; where the form has none, the form takes the default value of the
  field, and where there is none either, what the input element shows (\<open>shown\<close>: the
  empty string for a text input, the \<open>value\<close> given to a select, \<open>NaN\<close> for an
  empty number input read as a number, \<open>false\<close> for an unchecked checkbox).
\<close>

definition held :: "json \<Rightarrow> json \<Rightarrow> json \<Rightarrow> json" where
  "held shown dflt v = (if v \<noteq> JUndefined then v else if dflt \<noteq> JUndefined then dflt else shown)"

text \<open>
  A number input (\<open>valueAsNumber\<close>) holds a number as it is and a checkbox a boolean
  as it is. What the library makes of a value of another type in such an input depends
  on its version and is a parameter.
\<close>

datatype input_kind = NumberInput | CheckboxInput

type_synonym form_lib = "input_kind \<Rightarrow> json \<Rightarrow> json"

definition number_input :: "form_lib \<Rightarrow> json \<Rightarrow> json" where
  "number_input lib v =
     (case v of
        JUndefined \<Rightarrow> JNaN
      | JNum n \<Rightarrow> JNum n
      | JNaN \<Rightarrow> JNaN
      | _ \<Rightarrow> lib NumberInput v)"

definition checkbox_input :: "form_lib \<Rightarrow> json \<Rightarrow> json" where
  "checkbox_input lib v =
     (case v of
        JUndefined \<Rightarrow> JBool False
      | JBool b \<Rightarrow> JBool b
      | _ \<Rightarrow> lib CheckboxInput v)"

definition http :: "http_method \<Rightarrow> string \<Rightarrow> json \<Rightarrow> request" where
  "http m u b = \<lparr>req_method = m, url = u, authorization = None, body = b, retry = False\<rparr>"

subsection \<open>Users page\<close>

text \<open>The object \<open>fetchUsers\<close> builds for a user of the response.\<close>

record user_row =
  u_id :: json
  u_email :: json
  u_firstName :: json
  u_lastName :: json
  u_role :: json
  u_status :: json
  u_companyId :: json
  u_createdAt :: json
  u_updatedAt :: json

text \<open>The values the form holds, before validation; \<open>JUndefined\<close> is a field not set.\<close>

record user_values =
  v_email :: json
  v_firstName :: json
  v_lastName :: json
  v_role :: json
  v_status :: json
  v_password :: json
  v_companyId :: json

text \<open>\<open>UserFormData\<close>: what \<open>userSchema\<close> lets through, and what \<open>onSubmit\<close> gets.\<close>

record UserFormData =
  fd_email :: string
  fd_firstName :: string
  fd_lastName :: string
  fd_role :: string
  fd_status :: string
  fd_password :: "string option"
  fd_companyId :: string

record company_ref =
  c_id :: json
  c_name :: json

record users_page =
  up_users :: "user_row list"
  up_loading :: bool
  up_error :: json
  up_openDialog :: bool
  up_selectedUser :: "user_row option"
  up_companies :: "company_ref list"
  up_form :: user_values
  up_form_defaults :: user_values
  up_calls :: "request list"

text \<open>The \<open>defaultValues\<close> of \<open>useForm\<close>, and the state of the page before it mounts.\<close>

definition user_defaults :: user_values where
  "user_defaults =
     \<lparr>v_email = JStr '''', v_firstName = JStr '''', v_lastName = JStr '''',
      v_role = JStr ''viewer'', v_status = JStr ''active'', v_password = JUndefined,
      v_companyId = JStr ''''\<rparr>"

definition users_initial :: users_page where
  "users_initial =
     \<lparr>up_users = [], up_loading = True, up_error = JNull, up_openDialog = False,
      up_selectedUser = None, up_companies = [], up_form = user_defaults,
      up_form_defaults = user_defaults, up_calls = []\<rparr>"

text \<open>The callback of \<open>response.data.data.map\<close>, on a user that is not nullish.\<close>

definition normalize_user :: "json \<Rightarrow> user_row" where
  "normalize_user user =
     \<lparr>u_id = js_or (js_get user ''id'') (js_get user ''_id''),
      u_email = js_get user ''email'',
      u_firstName = js_or (js_get user ''first_name'') (js_get user ''firstName''),
      u_lastName = js_or (js_get user ''last_name'') (js_get user ''lastName''),
      u_role = js_get user ''role'',
      u_status = js_get user ''status'',
      u_companyId = js_or (js_get user ''company_id'') (js_get user ''companyId''),
      u_createdAt = js_or (js_get user ''created_at'') (js_get user ''createdAt''),
      u_updatedAt = js_or (js_get user ''updated_at'') (js_get user ''updatedAt'')\<rparr>"

text \<open>
  \<open>xs.map(f)\<close> for a callback that reads properties of its argument: the first nullish
  element throws.
\<close>

fun map_rows :: "(json \<Rightarrow> 'a) \<Rightarrow> json list \<Rightarrow> err + 'a list" where
  "map_rows f [] = Inr []"
| "map_rows f (x # xs) =
     (if nullish x then Inl TypeError
      else case map_rows f xs of Inl t \<Rightarrow> Inl t | Inr rows \<Rightarrow> Inr (f x # rows))"

fun the_array :: "json \<Rightarrow> json list" where
  "the_array (JArr xs) = xs"
| "the_array v = []"

text \<open>The \<open>try\<close> block of \<open>fetchUsers\<close> after the response has come.\<close>

definition users_of_response :: "response \<Rightarrow> err + user_row list" where
  "users_of_response resp =
     (if nullish (data resp) then Inl TypeError
      else if \<not> truthy (js_get (data resp) ''success'') \<or> \<not> is_array (js_get (data resp) ''data'')
      then Inl (Error ''Invalid response format: expected success and data array'')
      else map_rows normalize_user (the_array (js_get (data resp) ''data'')))"

text \<open>The \<open>catch\<close> and \<open>finally\<close> blocks of \<open>fetchUsers\<close>.\<close>

definition fetchUsers_failed :: "err \<Rightarrow> users_page \<Rightarrow> users_page" where
  "fetchUsers_failed err st =
     (case handleApiError (thrown err) of
        Inl t \<Rightarrow> st\<lparr>up_loading := False\<rparr>
      | Inr errorMessage \<Rightarrow>
          st\<lparr>up_error := errorMessage, up_users := [], up_loading := False\<rparr>)"

definition fetchUsers :: "outcome option \<Rightarrow> users_page \<Rightarrow> users_page" where
  "fetchUsers out st =
     (let st1 = st\<lparr>up_loading := True, up_calls := up_calls st @ [http GET ''/users'' JUndefined]\<rparr>
      in case out of
           None \<Rightarrow> st1
         | Some (Rejected err) \<Rightarrow> fetchUsers_failed err st1
         | Some (Resolved resp) \<Rightarrow>
             (case users_of_response resp of
                Inl err \<Rightarrow> fetchUsers_failed err st1
              | Inr usersWithIds \<Rightarrow>
                  st1\<lparr>up_users := usersWithIds, up_error := JNull, up_loading := False\<rparr>))"

text \<open>\<open>fetchCompanies\<close> of the users page.\<close>

definition format_company :: "json \<Rightarrow> company_ref" where
  "format_company company = \<lparr>c_id = js_get company ''id'', c_name = js_get company ''name''\<rparr>"

definition companies_of_response :: "response \<Rightarrow> err + company_ref list" where
  "companies_of_response resp =
     (if \<not> is_array (data resp) then Inl (Error ''Invalid companies response format'')
      else map_rows format_company (the_array (data resp)))"

definition users_fetchCompanies :: "outcome option \<Rightarrow> users_page \<Rightarrow> users_page" where
  "users_fetchCompanies out st =
     (let st1 = st\<lparr>up_calls := up_calls st @ [http GET ''/companies'' JUndefined]\<rparr>
      in case out of
           None \<Rightarrow> st1
         | Some (Rejected err) \<Rightarrow> st1\<lparr>up_error := catch_error err (up_error st1)\<rparr>
         | Some (Resolved resp) \<Rightarrow>
             (case companies_of_response resp of
                Inl err \<Rightarrow> st1\<lparr>up_error := catch_error err (up_error st1)\<rparr>
              | Inr formattedCompanies \<Rightarrow> st1\<lparr>up_companies := formattedCompanies\<rparr>))"

text \<open>\<open>handleEdit\<close>: six \<open>setValue\<close> calls; the password value of the form is not touched.\<close>

definition handleEdit :: "user_row \<Rightarrow> users_page \<Rightarrow> users_page" where
  "handleEdit user st =
     st\<lparr>up_selectedUser := Some user,
        up_form := (up_form st)\<lparr>v_email := u_email user, v_firstName := u_firstName user,
                     v_lastName := u_lastName user, v_role := u_role user,
                     v_status := u_status user, v_companyId := u_companyId user\<rparr>,
        up_openDialog := True\<rparr>"



text \<open>The request body of a \<open>UserFormData\<close>: a password that is not there has no key.\<close>

definition user_payload :: "UserFormData \<Rightarrow> json" where
  "user_payload d =
     JObj ([(''email'', JStr (fd_email d)), (''firstName'', JStr (fd_firstName d)),
            (''lastName'', JStr (fd_lastName d)), (''role'', JStr (fd_role d)),
            (''status'', JStr (fd_status d))]
           @ (case fd_password d of None \<Rightarrow> [] | Some p \<Rightarrow> [(''password'', JStr p)])
           @ [(''companyId'', JStr (fd_companyId d))])"

text \<open>\<open>!data.password\<close>\<close>

fun blank :: "string option \<Rightarrow> bool" where
  "blank None = True"
| "blank (Some p) = (p = [])"

text \<open>
  \<open>onSubmit\<close> of the users page. \<open>sent\<close> is what the PUT or POST settles with,
  \<open>refetch\<close> what the GET of the final \<open>fetchUsers()\<close> settles with.
\<close>

definition users_submitted :: "outcome option \<Rightarrow> outcome option \<Rightarrow> users_page \<Rightarrow> users_page" where
  "users_submitted sent' refetch st =
     (case sent' of
        None \<Rightarrow> st
      | Some (Rejected err) \<Rightarrow> st\<lparr>up_error := catch_error err (up_error st)\<rparr>
      | Some (Resolved resp) \<Rightarrow>
          fetchUsers refetch (st\<lparr>up_openDialog := False, up_form := up_form_defaults st\<rparr>))"

definition users_onSubmit ::
  "UserFormData \<Rightarrow> outcome option \<Rightarrow> outcome option \<Rightarrow> users_page \<Rightarrow> users_page" where
  "users_onSubmit d sent' refetch st =
     (case up_selectedUser st of
        Some selectedUser \<Rightarrow>
          let updateData = (if blank (fd_password d) then d\<lparr>fd_password := None\<rparr> else d)
          in users_submitted sent' refetch
               (st\<lparr>up_calls := up_calls st @
                      [http PUT (''/users/'' @ js_string (u_id selectedUser)) (user_payload updateData)]\<rparr>)
      | None \<Rightarrow>
          if blank (fd_password d) then st\<lparr>up_error := JStr ''Password is required for new users''\<rparr>
          else users_submitted sent' refetch
                 (st\<lparr>up_calls := up_calls st @ [http POST ''/users'' (user_payload d)]\<rparr>))"



subsection \<open>Roles page\<close>

text \<open>The values of the role form: \<open>permissions\<close> is the object as it came.\<close>

record role_values =
  rv_name :: json
  rv_description :: json
  rv_permissions :: json

record roles_page =
  rp_roles :: "json list"
  rp_loading :: bool
  rp_error :: json
  rp_open :: bool
  rp_editingRole :: "json option"
  rp_form :: role_values
  rp_calls :: "request list"

definition roles_of_response :: "response \<Rightarrow> err + json list" where
  "roles_of_response resp =
     (if nullish (data resp) then Inl TypeError
      else if \<not> truthy (js_get (data resp) ''success'') \<or> \<not> is_array (js_get (data resp) ''data'')
      then Inl (Error ''Invalid response format: expected success and data array'')
      else Inr (the_array (js_get (data resp) ''data'')))"

definition fetchRoles_failed :: "err \<Rightarrow> roles_page \<Rightarrow> roles_page" where
  "fetchRoles_failed err st =
     (case handleApiError (thrown err) of
        Inl t \<Rightarrow> st\<lparr>rp_loading := False\<rparr>
      | Inr errorMessage \<Rightarrow>
          st\<lparr>rp_error := errorMessage, rp_roles := [], rp_loading := False\<rparr>)"

definition fetchRoles :: "outcome option \<Rightarrow> roles_page \<Rightarrow> roles_page" where
  "fetchRoles out st =
     (let st1 = st\<lparr>rp_loading := True, rp_calls := rp_calls st @ [http GET ''/roles'' JUndefined]\<rparr>
      in case out of
           None \<Rightarrow> st1
         | Some (Rejected err) \<Rightarrow> fetchRoles_failed err st1
         | Some (Resolved resp) \<Rightarrow>
             (case roles_of_response resp of
                Inl err \<Rightarrow> fetchRoles_failed err st1
              | Inr roles \<Rightarrow> st1\<lparr>rp_roles := roles, rp_error := JNull, rp_loading := False\<rparr>))"

subsection \<open>Companies page\<close>

text \<open>\<open>setCompanies(response.data)\<close>: the state holds the body as it came.\<close>

record companies_page =
  cp_companies :: json
  cp_loading :: bool
  cp_calls :: "request list"

definition fetchCompanies :: "outcome option \<Rightarrow> companies_page \<Rightarrow> companies_page" where
  "fetchCompanies out st =
     (let st1 = st\<lparr>cp_calls := cp_calls st @ [http GET ''/companies'' JUndefined]\<rparr>
      in case out of
           None \<Rightarrow> st1
         | Some (Rejected err) \<Rightarrow> st1\<lparr>cp_loading := False\<rparr>
         | Some (Resolved resp) \<Rightarrow> st1\<lparr>cp_companies := data resp, cp_loading := False\<rparr>)"

subsection \<open>Devices page\<close>

record devices_page =
  dp_devices :: json
  dp_loading :: bool
  dp_error :: json
  dp_searchTerm :: string
  dp_page :: nat
  dp_rowsPerPage :: nat
  dp_calls :: "request list"

definition fetchDevices :: "outcome option \<Rightarrow> devices_page \<Rightarrow> devices_page" where
  "fetchDevices out st =
     (let st1 = st\<lparr>dp_calls := dp_calls st @ [http GET ''/devices'' JUndefined]\<rparr>
      in case out of
           None \<Rightarrow> st1
         | Some (Rejected err) \<Rightarrow>
             st1\<lparr>dp_error := catch_error err (dp_error st1), dp_loading := False\<rparr>
         | Some (Resolved resp) \<Rightarrow>
             st1\<lparr>dp_devices := data resp, dp_error := JNull, dp_loading := False\<rparr>)"

text \<open>
  \<open>devices.filter(device => device.id !== id)\<close>: a TypeError when \<open>devices\<close> is not an
  array or holds a nullish element; \<open>id\<close> is declared a string, so \<open>!==\<close> is plain
  inequality with that string.
\<close>

definition without_id :: "string \<Rightarrow> json \<Rightarrow> err + json" where
  "without_id i devices =
     (case devices of
        JArr ds \<Rightarrow>
          if list_ex nullish ds then Inl TypeError
          else Inr (JArr (filter (\<lambda>device. js_get device ''id'' \<noteq> JStr i) ds))
      | _ \<Rightarrow> Inl TypeError)"

text \<open>
  \<open>handleDelete\<close> runs in two steps. At the click it asks for confirmation and, when
  confirmed, hands the DELETE to the client. When the DELETE settles it goes on with the
  \<open>devices\<close> of its closure, which is the list the page held at the click
  (\<open>captured\<close>), whatever the page holds by then.
\<close>

definition handleDelete_click :: "bool \<Rightarrow> string \<Rightarrow> devices_page \<Rightarrow> devices_page" where
  "handleDelete_click confirmed i st =
     (if \<not> confirmed then st
      else st\<lparr>dp_calls := dp_calls st @ [http DELETE (''/devices/'' @ i) JUndefined]\<rparr>)"

definition handleDelete_settled :: "string \<Rightarrow> json \<Rightarrow> outcome \<Rightarrow> devices_page \<Rightarrow> devices_page" where
  "handleDelete_settled i captured out st =
     (case out of
        Rejected err \<Rightarrow> st\<lparr>dp_error := catch_error err (dp_error st)\<rparr>
      | Resolved resp \<Rightarrow>
          (case without_id i captured of
             Inl err \<Rightarrow> st\<lparr>dp_error := catch_error err (dp_error st)\<rparr>
           | Inr devices \<Rightarrow> st\<lparr>dp_devices := devices, dp_error := JNull\<rparr>))"

text \<open>
  One delete with nothing else happening between its click and its end: \<open>confirmed\<close>
  is the answer to \<open>confirm(...)\<close>, \<open>out\<close> what the DELETE settles with.
\<close>

definition handleDelete :: "bool \<Rightarrow> string \<Rightarrow> outcome option \<Rightarrow> devices_page \<Rightarrow> devices_page" where
  "handleDelete confirmed i out st =
     (if \<not> confirmed then handleDelete_click False i st
      else case out of
             None \<Rightarrow> handleDelete_click True i st
           | Some settled \<Rightarrow>
               handleDelete_settled i (dp_devices st) settled (handleDelete_click True i st))"

text \<open>
  What the table shows. \<open>filteredDevices\<close> keeps the devices whose type, location or
  physical address includes the search term, all in lower case; reading \<open>toLowerCase\<close>
  of a value that is not a string is a TypeError, and the later alternatives of \<open>||\<close>
  are not evaluated once one holds. \<open>toLowerCase\<close> itself is a parameter.
  \<open>paginatedDevices\<close> is the slice of the current page.
\<close>

definition lowered_includes :: "(string \<Rightarrow> string) \<Rightarrow> string \<Rightarrow> json \<Rightarrow> err + bool" where
  "lowered_includes lower searchTerm v =
     (case v of
        JStr t \<Rightarrow> Inr (js_includes (lower t) (lower searchTerm))
      | _ \<Rightarrow> Inl TypeError)"

definition row_matches :: "(string \<Rightarrow> string) \<Rightarrow> string \<Rightarrow> json \<Rightarrow> err + bool" where
  "row_matches lower searchTerm device =
     (if nullish device then Inl TypeError
      else case lowered_includes lower searchTerm (js_get device ''type'') of
             Inl t \<Rightarrow> Inl t
           | Inr True \<Rightarrow> Inr True
           | Inr False \<Rightarrow>
               (case lowered_includes lower searchTerm (js_get device ''location'') of
                  Inl t \<Rightarrow> Inl t
                | Inr True \<Rightarrow> Inr True
                | Inr False \<Rightarrow>
                    lowered_includes lower searchTerm (js_get device ''physical_address'')))"

fun filter_rows :: "(json \<Rightarrow> err + bool) \<Rightarrow> json list \<Rightarrow> err + json list" where
  "filter_rows p [] = Inr []"
| "filter_rows p (x # xs) =
     (case p x of
        Inl t \<Rightarrow> Inl t
      | Inr keep \<Rightarrow>
          (case filter_rows p xs of
             Inl t \<Rightarrow> Inl t
           | Inr rows \<Rightarrow> Inr (if keep then x # rows else rows)))"

definition filteredDevices :: "(string \<Rightarrow> string) \<Rightarrow> devices_page \<Rightarrow> err + json list" where
  "filteredDevices lower st =
     (case dp_devices st of
        JArr ds \<Rightarrow> filter_rows (row_matches lower (dp_searchTerm st)) ds
      | _ \<Rightarrow> Inl TypeError)"

definition page_slice :: "devices_page \<Rightarrow> json list \<Rightarrow> json list" where
  "page_slice st rows = take (dp_rowsPerPage st) (drop (dp_page st * dp_rowsPerPage st) rows)"

definition paginatedDevices :: "(string \<Rightarrow> string) \<Rightarrow> devices_page \<Rightarrow> err + json list" where
  "paginatedDevices lower st =
     (case filteredDevices lower st of
        Inl t \<Rightarrow> Inl t
      | Inr rows \<Rightarrow> Inr (page_slice st rows))"

subsection \<open>Edit device page\<close>

text \<open>The object \<open>formData\<close> of \<open>fetchDevice\<close>, which is what the form is reset to.\<close>

record device_values =
  dv_type :: json
  dv_company_id :: json
  dv_status :: json
  dv_location :: json
  dv_physical_address :: json
  dv_payload_schema :: json
  dv_push_interval :: json
  dv_enabled :: json

text \<open>\<open>DeviceFormData\<close>: what \<open>deviceSchema\<close> lets through.\<close>

record DeviceFormData =
  df_type :: string
  df_company_id :: string
  df_status :: string
  df_location :: string
  df_physical_address :: string
  df_payload_schema :: "(string \<times> json) list"
  df_push_interval :: int
  df_enabled :: bool

record edit_device_page =
  ep_form :: device_values
  ep_loading :: bool
  ep_error :: json
  ep_route :: "string option"
  ep_calls :: "request list"

definition formData :: "json \<Rightarrow> device_values" where
  "formData deviceData =
     \<lparr>dv_type = js_get deviceData ''type'',
      dv_company_id = js_or (js_get deviceData ''company_id'') (js_get deviceData ''companyId''),
      dv_status = js_get deviceData ''status'',
      dv_location = js_get deviceData ''location'',
      dv_physical_address =
        js_or (js_get deviceData ''physical_address'') (js_get deviceData ''physicalAddress''),
      dv_payload_schema =
        js_or (js_get deviceData ''payload_schema'') (js_get deviceData ''payloadSchema''),
      dv_push_interval =
        js_or (js_get deviceData ''push_interval'') (js_get deviceData ''pushInterval''),
      dv_enabled = js_get deviceData ''enabled''\<rparr>"

definition fetchDevice :: "string \<Rightarrow> outcome option \<Rightarrow> edit_device_page \<Rightarrow> edit_device_page" where
  "fetchDevice i out st =
     (let st1 = st\<lparr>ep_calls := ep_calls st @ [http GET (''/devices/'' @ i) JUndefined]\<rparr>
      in case out of
           None \<Rightarrow> st1
         | Some (Rejected err) \<Rightarrow>
             st1\<lparr>ep_error := JStr ''Failed to fetch device details'', ep_loading := False\<rparr>
         | Some (Resolved resp) \<Rightarrow>
             if nullish (data resp)
             then st1\<lparr>ep_error := JStr ''Failed to fetch device details'', ep_loading := False\<rparr>
             else st1\<lparr>ep_form := formData (data resp), ep_loading := False\<rparr>)"

text \<open>
  \<open>deviceSchema\<close>: a field with \<open>.default(...)\<close> takes its default when the value is
  \<open>undefined\<close>; every other field must be there.
\<close>

definition bounded_string :: "nat \<Rightarrow> nat option \<Rightarrow> json \<Rightarrow> string option" where
  "bounded_string lo hi v =
     (case v of
        JStr s \<Rightarrow>
          if lo \<le> length s \<and> (case hi of None \<Rightarrow> True | Some h \<Rightarrow> length s \<le> h) then Some s
          else None
      | _ \<Rightarrow> None)"

definition status_field :: "json \<Rightarrow> string option" where
  "status_field v =
     (case v of
        JUndefined \<Rightarrow> Some ''offline''
      | JStr s \<Rightarrow> if s \<in> set [''online'', ''offline'', ''maintenance''] then Some s else None
      | _ \<Rightarrow> None)"

definition payload_schema_field :: "json \<Rightarrow> (string \<times> json) list option" where
  "payload_schema_field v =
     (case v of JUndefined \<Rightarrow> Some [] | JObj kvs \<Rightarrow> Some kvs | _ \<Rightarrow> None)"

definition push_interval_field :: "json \<Rightarrow> int option" where
  "push_interval_field v =
     (case v of
        JUndefined \<Rightarrow> Some 60
      | JNum n \<Rightarrow> if 0 < n then Some n else None
      | _ \<Rightarrow> None)"

definition enabled_field :: "json \<Rightarrow> bool option" where
  "enabled_field v = (case v of JUndefined \<Rightarrow> Some True | JBool b \<Rightarrow> Some b | _ \<Rightarrow> None)"

definition deviceSchema :: "device_values \<Rightarrow> DeviceFormData option" where
  "deviceSchema v =
     (case (bounded_string 2 (Some 50) (dv_type v), bounded_string 1 None (dv_company_id v),
            status_field (dv_status v), bounded_string 2 (Some 255) (dv_location v),
            bounded_string 5 (Some 1000) (dv_physical_address v),
            payload_schema_field (dv_payload_schema v),
            push_interval_field (dv_push_interval v), enabled_field (dv_enabled v)) of
        (Some t, Some c, Some s, Some l, Some a, Some p, Some n, Some b) \<Rightarrow>
          Some \<lparr>df_type = t, df_company_id = c, df_status = s, df_location = l,
                df_physical_address = a, df_payload_schema = p, df_push_interval = n,
                df_enabled = b\<rparr>
      | _ \<Rightarrow> None)"

definition device_payload :: "DeviceFormData \<Rightarrow> json" where
  "device_payload d =
     JObj [(''type'', JStr (df_type d)), (''company_id'', JStr (df_company_id d)),
           (''status'', JStr (df_status d)), (''location'', JStr (df_location d)),
           (''physical_address'', JStr (df_physical_address d)),
           (''payload_schema'', JObj (df_payload_schema d)),
           (''push_interval'', JNum (df_push_interval d)), (''enabled'', JBool (df_enabled d))]"


definition device_onSubmit ::
  "string \<Rightarrow> DeviceFormData \<Rightarrow> outcome option \<Rightarrow> edit_device_page \<Rightarrow> edit_device_page" where
  "device_onSubmit i d out st =
     (let st1 = st\<lparr>ep_loading := True,
                   ep_calls := ep_calls st @ [http PUT (''/devices/'' @ i) (device_payload d)]\<rparr>
      in case out of
           None \<Rightarrow> st1
         | Some (Rejected err) \<Rightarrow>
             st1\<lparr>ep_error := catch_error err (ep_error st1), ep_loading := False\<rparr>
         | Some (Resolved resp) \<Rightarrow> st1\<lparr>ep_route := Some ''/devices'', ep_loading := False\<rparr>)"

text \<open>
  The values the edit form holds when it is submitted. The form is rendered only once
  the fetch is over, so its inputs mount on the values it was reset to, which are its
  defaults as well. Seven fields have a registered input: three text inputs, the
  company select (\<open>value={selectedCompany || ''}\<close>), the status select
  (\<open>value={selectedStatus || 'offline'}\<close>), the number input of the push interval
  and the switch. The payload schema has none and stays as it is.
\<close>

definition device_inputs :: "form_lib \<Rightarrow> device_values \<Rightarrow> device_values" where
  "device_inputs lib v =
     \<lparr>dv_type = held (JStr '''') JUndefined (dv_type v),
      dv_company_id = held (JStr '''') JUndefined (dv_company_id v),
      dv_status = held (JStr ''offline'') JUndefined (dv_status v),
      dv_location = held (JStr '''') JUndefined (dv_location v),
      dv_physical_address = held (JStr '''') JUndefined (dv_physical_address v),
      dv_payload_schema = dv_payload_schema v,
      dv_push_interval = number_input lib (dv_push_interval v),
      dv_enabled = checkbox_input lib (dv_enabled v)\<rparr>"

definition device_handleSubmit ::
  "form_lib \<Rightarrow> string \<Rightarrow> outcome option \<Rightarrow> edit_device_page \<Rightarrow> edit_device_page" where
  "device_handleSubmit lib i out st =
     (case deviceSchema (device_inputs lib (ep_form st)) of
        None \<Rightarrow> st
      | Some d \<Rightarrow> device_onSubmit i d out st)"

subsection \<open>Role dialog\<close>

text \<open>\<open>handleOpen(role?)\<close>: with a role the form is reset to its three fields.\<close>

definition no_permission :: json where
  "no_permission =
     JObj [(''view'', JBool False), (''create'', JBool False), (''edit'', JBool False),
           (''delete'', JBool False)]"
















section \<open>Route protection\<close>

subsection \<open>The middleware\<close>

datatype verdict = Next | Redirect string

text \<open>\<open>s.includes('.')\<close>\<close>

definition includes_dot :: "string \<Rightarrow> bool" where
  "includes_dot s = (CHR ''.'' \<in> set s)"

text \<open>
  \<open>middleware(request)\<close>, as a function of \<open>request.nextUrl.pathname\<close> and of the value
  of the \<open>accessToken\<close> cookie of the request.
\<close>

definition middleware :: "string \<Rightarrow> string option \<Rightarrow> verdict" where
  "middleware pathname token =
     (if pathname = ''/login'' \<or> startsWith pathname ''/api/'' then Next
      else if startsWith pathname ''/_next'' \<or> includes_dot pathname then Next
      else if \<not> present token then Redirect ''/login''
      else Next)"

text \<open>
  The \<open>matcher\<close> of the exported \<open>config\<close>,
  \<open>/((?!_next/static|_next/image|favicon.ico|public).*)\<close>: the paths the middleware runs
  on. After the leading slash the path must not begin with one of the four
  alternatives; the dot of \<open>favicon.ico\<close> stands for any one character.
\<close>

definition favicon_ico :: "string \<Rightarrow> bool" where
  "favicon_ico s = (11 \<le> length s \<and> take 7 s = ''favicon'' \<and> take 3 (drop 8 s) = ''ico'')"

definition matcher :: "string \<Rightarrow> bool" where
  "matcher pathname =
     (case pathname of
        [] \<Rightarrow> False
      | c # rest \<Rightarrow>
          c = CHR ''/'' \<and> \<not> startsWith rest ''_next/static'' \<and> \<not> startsWith rest ''_next/image''
          \<and> \<not> favicon_ico rest \<and> \<not> startsWith rest ''public'')"

text \<open>A navigation: the middleware decides where the matcher selects the path.\<close>

definition navigate :: "string \<Rightarrow> string option \<Rightarrow> verdict" where
  "navigate pathname token = (if matcher pathname then middleware pathname token else Next)"

text \<open>
  The assets of the application, as the comment of the matcher lists them: the static
  files and the optimized images of the build, the favicon, the files of the public
  folder.
\<close>

definition static_asset :: "string \<Rightarrow> bool" where
  "static_asset pathname =
     (startsWith pathname ''/_next/static'' \<or> startsWith pathname ''/_next/image''
      \<or> pathname = ''/favicon.ico'' \<or> startsWith pathname ''/public/'')"

subsection \<open>The guard of the dashboard\<close>

record dashboard_page =
  db_stats :: json
  db_deviceData :: json
  db_route :: "string option"
  db_polling :: bool
  db_calls :: "request list"

text \<open>\<open>error.response?.status === 401\<close>\<close>

fun unauthorized :: "err \<Rightarrow> bool" where
  "unauthorized (AxiosError config resp) = is_401 resp"
| "unauthorized e = False"

definition fetchStats :: "outcome option \<Rightarrow> dashboard_page \<Rightarrow> dashboard_page" where
  "fetchStats out st =
     (let st1 = st\<lparr>db_calls := db_calls st @ [http GET ''/companies/stats'' JUndefined]\<rparr>
      in case out of
           None \<Rightarrow> st1
         | Some (Rejected err) \<Rightarrow> if unauthorized err then st1\<lparr>db_route := Some ''/login''\<rparr> else st1
         | Some (Resolved resp) \<Rightarrow> st1\<lparr>db_stats := data resp\<rparr>)"

definition fetchDeviceData :: "outcome option \<Rightarrow> dashboard_page \<Rightarrow> dashboard_page" where
  "fetchDeviceData out st =
     (let st1 = st\<lparr>db_calls := db_calls st @ [http GET ''/devices/stats'' JUndefined]\<rparr>
      in case out of
           None \<Rightarrow> st1
         | Some (Rejected err) \<Rightarrow> if unauthorized err then st1\<lparr>db_route := Some ''/login''\<rparr> else st1
         | Some (Resolved resp) \<Rightarrow> st1\<lparr>db_deviceData := data resp\<rparr>)"

text \<open>
  The effect the dashboard runs when it mounts: \<open>token\<close> is \<open>Cookies.get('accessToken')\<close>,
  \<open>stats\<close> and \<open>devs\<close> are what the two first fetches settle with. The later rounds of
  the 30 second timer are not modelled; \<open>db_polling\<close> says the timer was started.
\<close>

definition dashboard_effect ::
  "string option \<Rightarrow> outcome option \<Rightarrow> outcome option \<Rightarrow> dashboard_page \<Rightarrow> dashboard_page" where
  "dashboard_effect token stats devs st =
     (if \<not> present token then st\<lparr>db_route := Some ''/login''\<rparr>
      else (fetchDeviceData devs (fetchStats stats st))\<lparr>db_polling := True\<rparr>)"

section \<open>Concrete responses and page states\<close>

text \<open>A call that settles with a 200 response of the given body.\<close>

definition answered :: "json \<Rightarrow> outcome option" where
  "answered b = Some (Resolved \<lparr>status = 200, data = b\<rparr>)"

text \<open>The refetch that \<open>onSubmit\<close> of the users page starts once its call has resolved.\<close>

fun refetch_calls :: "outcome option \<Rightarrow> request list" where
  "refetch_calls (Some (Resolved resp)) = [http GET ''/users'' JUndefined]"
| "refetch_calls out = []"

definition wire_user :: json where
  "wire_user =
     JObj [(''id'', JStr ''7''), (''email'', JStr ''a@b.com''), (''first_name'', JStr ''Ada''),
           (''last_name'', JStr ''Lovelace''), (''role'', JStr ''admin''),
           (''status'', JStr ''active''),
           (''company_id'', JStr ''123e4567-e89b-12d3-a456-426614174000'')]"

definition roles_initial :: roles_page where
  "roles_initial =
     \<lparr>rp_roles = [], rp_loading = True, rp_error = JNull, rp_open = False,
      rp_editingRole = None,
      rp_form = \<lparr>rv_name = JUndefined, rv_description = JUndefined,
                  rv_permissions =
                    JObj [(''devices'', no_permission), (''companies'', no_permission),
                          (''users'', no_permission)]\<rparr>,
      rp_calls = []\<rparr>"

definition companies_initial :: companies_page where
  "companies_initial = \<lparr>cp_companies = JArr [], cp_loading = True, cp_calls = []\<rparr>"

definition devices_initial :: devices_page where
  "devices_initial =
     \<lparr>dp_devices = JArr [], dp_loading = True, dp_error = JNull, dp_searchTerm = '''',
      dp_page = 0, dp_rowsPerPage = 10, dp_calls = []\<rparr>"

text \<open>The edit page before the device has come: the \<open>defaultValues\<close> of its form.\<close>

definition edit_initial :: edit_device_page where
  "edit_initial =
     \<lparr>ep_form = \<lparr>dv_type = JUndefined, dv_company_id = JUndefined, dv_status = JStr ''offline'',
                  dv_location = JUndefined, dv_physical_address = JUndefined,
                  dv_payload_schema = JUndefined, dv_push_interval = JUndefined,
                  dv_enabled = JBool True\<rparr>,
      ep_loading = True, ep_error = JNull, ep_route = None, ep_calls = []\<rparr>"



text \<open>The same device sent without a push interval, and without its switch.\<close>

definition wire_device_without_interval :: json where
  "wire_device_without_interval =
     JObj [(''id'', JStr ''1''), (''type'', JStr ''sensor''), (''company_id'', JStr ''c1''),
           (''status'', JStr ''online''), (''location'', JStr ''lab''),
           (''physical_address'', JStr ''1 Main Street''),
           (''payload_schema'', JObj [(''t'', JStr ''number'')]),
           (''enabled'', JBool False)]"

definition wire_device_without_enabled :: json where
  "wire_device_without_enabled =
     JObj [(''id'', JStr ''1''), (''type'', JStr ''sensor''), (''company_id'', JStr ''c1''),
           (''status'', JStr ''online''), (''location'', JStr ''lab''),
           (''physical_address'', JStr ''1 Main Street''),
           (''payload_schema'', JObj [(''t'', JStr ''number'')]),
           (''push_interval'', JNum 30)]"

text \<open>
  Seven devices on a page that shows five rows (one of the choices of the table), and
  the device with a given identifier.
\<close>

definition device_no :: "string \<Rightarrow> json" where
  "device_no i =
     JObj [(''id'', JStr i), (''type'', JStr ''sensor''), (''location'', JStr ''lab''),
           (''physical_address'', JStr ''1 Main Street'')]"

definition seven_devices :: devices_page where
  "seven_devices =
     \<lparr>dp_devices = JArr [device_no ''1'', device_no ''2'', device_no ''3'', device_no ''4'',
                          device_no ''5'', device_no ''6'', device_no ''7''],
      dp_loading = False, dp_error = JNull, dp_searchTerm = '''', dp_page = 0,
      dp_rowsPerPage = 5, dp_calls = []\<rparr>"

text \<open>
  Stand-ins for \<open>toLowerCase\<close> (right on strings without capital letters) and for
  the form library (it holds every value as it is).
\<close>

definition no_capitals :: "string \<Rightarrow> string" where
  "no_capitals s = s"

definition as_is :: form_lib where
  "as_is kind v = v"




definition blank_update :: UserFormData where
  "blank_update =
     \<lparr>fd_email = ''a@b.com'', fd_firstName = ''Ada'', fd_lastName = ''Lovelace'',
      fd_role = ''admin'', fd_status = ''active'', fd_password = Some '''',
      fd_companyId = ''123e4567-e89b-12d3-a456-426614174000''\<rparr>"

definition dashboard_initial :: dashboard_page where
  "dashboard_initial =
     \<lparr>db_stats = JObj [(''totalCompanies'', JNum 0), (''totalDevices'', JNum 0),
                       (''activeDevices'', JNum 0), (''totalUsers'', JNum 0)],
      db_deviceData = JObj [(''labels'', JArr []), (''datasets'', JArr [])],
      db_route = None, db_polling = False, db_calls = []\<rparr>"

section \<open>Properties of the request client\<close>

subsection \<open>Basic facts\<close>

lemma retry_request_interceptor [simp]: "retry (request_interceptor s req) = retry req"
  by (simp add: request_interceptor_def split: option.splits)

lemma url_request_interceptor [simp]: "url (request_interceptor s req) = url req"
  by (simp add: request_interceptor_def split: option.splits)

lemma req_method_request_interceptor [simp]: "req_method (request_interceptor s req) = req_method req"
  by (simp add: request_interceptor_def split: option.splits)

lemma body_request_interceptor [simp]: "body (request_interceptor s req) = body req"
  by (simp add: request_interceptor_def split: option.splits)

lemma is_refresh_request_interceptor [simp]:
  "is_refresh (request_interceptor s req) = is_refresh req"
  by (simp add: is_refresh_def)

lemma request_interceptor_sent [simp]:
  "request_interceptor (s\<lparr>sent := t\<rparr>) req = request_interceptor s req"
  by (simp add: request_interceptor_def)

lemma refresh_calls_snoc [simp]:
  "refresh_calls (rs @ [r]) = refresh_calls rs + (if is_refresh r then 1 else 0)"
  by (simp add: refresh_calls_def)

lemma is_refresh_refresh_request [simp]: "is_refresh (refresh_request rt)"
  by (simp add: is_refresh_def refresh_request_def)

lemma retry_refresh_request [simp]: "\<not> retry (refresh_request rt)"
  by (simp add: refresh_request_def)

lemma api_call_401:
  "server e (sent s) (request_interceptor s req) = Reply r \<Longrightarrow> status r = 401 \<Longrightarrow>
   api_call (Suc n) e s req =
     response_rejected (api_call n e) e (s\<lparr>sent := sent s @ [request_interceptor s req]\<rparr>)
       (AxiosError (request_interceptor s req) (Some r))"
  by (simp add: Let_def)

lemma api_call_2xx:
  "server e (sent s) (request_interceptor s req) = Reply r \<Longrightarrow>
   200 \<le> status r \<Longrightarrow> status r < 300 \<Longrightarrow>
   api_call (Suc n) e s req =
     (Some (Resolved r), s\<lparr>sent := sent s @ [request_interceptor s req]\<rparr>)"
  by (simp add: Let_def)

lemma refresh_path_no_token:
  "\<not> present (refreshToken s) \<Longrightarrow>
   refresh_path api e s = (Some (Inl (Error ''No refresh token available'')), s)"
  by (cases "refreshToken s") (simp_all add: refresh_path_def)

lemma refresh_path_rejected:
  "refreshToken s = Some rt \<Longrightarrow> rt \<noteq> [] \<Longrightarrow>
   api s (refresh_request rt) = (Some (Rejected refreshError), s1) \<Longrightarrow>
   refresh_path api e s = (Some (Inl refreshError), s1)"
  by (simp add: refresh_path_def)

subsection \<open>The depth bound\<close>

text \<open>
  A call that has settled within some depth has the same result at every greater depth:
  the bound cuts runs short and changes nothing else. So a call that is \<open>None\<close> at
  every depth is a call that never settles.
\<close>

lemma refresh_path_extends:
  assumes "\<And>s req out s'. api s req = (Some out, s') \<Longrightarrow> api' s req = (Some out, s')"
    and "refresh_path api e s = (Some x, s')"
  shows "refresh_path api' e s = (Some x, s')"
proof (cases "present (refreshToken s)")
  case False
  then show ?thesis using assms(2) by (simp add: refresh_path_no_token)
next
  case True
  then obtain rt where rt: "refreshToken s = Some rt" "rt \<noteq> []"
    by (cases "refreshToken s") auto
  obtain o1 s1 where a: "api s (refresh_request rt) = (o1, s1)" by force
  with assms(2) rt obtain out where "o1 = Some out"
    by (cases o1) (auto simp: refresh_path_def)
  with a assms(1) have "api' s (refresh_request rt) = api s (refresh_request rt)"
    by simp
  with assms(2) rt show ?thesis by (simp add: refresh_path_def)
qed

lemma response_rejected_extends:
  assumes "\<And>s req out s'. api s req = (Some out, s') \<Longrightarrow> api' s req = (Some out, s')"
    and "response_rejected api e s error = (Some out, s')"
  shows "response_rejected api' e s error = (Some out, s')"
proof (cases error)
  case (AxiosError config resp)
  show ?thesis
  proof (cases "is_401 resp \<and> \<not> retry config")
    case False
    then show ?thesis using assms(2) AxiosError by auto
  next
    case True
    obtain p s1 where p: "refresh_path api e s = (p, s1)" by force
    show ?thesis
    proof (cases p)
      case None
      then show ?thesis using assms(2) AxiosError True p by simp
    next
      case (Some x)
      then have p': "refresh_path api' e s = (Some x, s1)"
        using refresh_path_extends [OF assms(1)] p by simp
      show ?thesis
      proof (cases x)
        case (Inl a)
        then show ?thesis using assms(2) AxiosError True p p' Some by simp
      next
        case (Inr a)
        then show ?thesis
          using assms AxiosError True p p' Some by simp
      qed
    qed
  qed
qed (use assms(2) in simp_all)

lemma api_call_rejected:
  "server e (sent s) (request_interceptor s req) = rep \<Longrightarrow>
   (\<forall>r. rep = Reply r \<longrightarrow> \<not> (200 \<le> status r \<and> status r < 300)) \<Longrightarrow>
   api_call (Suc n) e s req =
     response_rejected (api_call n e) e (s\<lparr>sent := sent s @ [request_interceptor s req]\<rparr>)
       (AxiosError (request_interceptor s req) (case rep of Reply r \<Rightarrow> Some r | NetworkError \<Rightarrow> None))"
  by (cases rep) (auto simp add: Let_def simp del: response_rejected.simps)

lemma api_call_Suc:
  "api_call n e s req = (Some out, s') \<Longrightarrow> api_call (Suc n) e s req = (Some out, s')"
proof (induction n arbitrary: s req out s')
  case 0
  then show ?case by simp
next
  case (Suc n)
  have ext: "api_call n e s req = (Some out, s') \<Longrightarrow> api_call (Suc n) e s req = (Some out, s')"
    for s req out s'
    by (rule Suc.IH)
  let ?rep = "server e (sent s) (request_interceptor s req)"
  show ?case
  proof (cases "\<forall>r. ?rep = Reply r \<longrightarrow> \<not> (200 \<le> status r \<and> status r < 300)")
    case True
    note step = api_call_rejected [OF refl True]
    from Suc.prems have "response_rejected (api_call n e) e
        (s\<lparr>sent := sent s @ [request_interceptor s req]\<rparr>)
        (AxiosError (request_interceptor s req)
          (case ?rep of Reply r \<Rightarrow> Some r | NetworkError \<Rightarrow> None)) = (Some out, s')"
      by (simp only: step [of n])
    from response_rejected_extends [OF ext this]
    show ?thesis by (simp only: step [of "Suc n"])
  next
    case False
    then obtain r where "?rep = Reply r" "200 \<le> status r" "status r < 300" by auto
    then have "api_call (Suc m) e s req =
        (Some (Resolved r), s\<lparr>sent := sent s @ [request_interceptor s req]\<rparr>)" for m
      by (rule api_call_2xx)
    from this [of n] this [of "Suc n"] Suc.prems show ?thesis by simp
  qed
qed

lemma api_call_mono:
  "api_call n e s req = (Some out, s') \<Longrightarrow> n \<le> m \<Longrightarrow> api_call m e s req = (Some out, s')"
  by (induction m) (auto simp: le_Suc_eq dest: api_call_Suc simp del: api_call.simps)

subsection \<open>One refresh, one retry\<close>

text \<open>
  A request that already carries the retry marker settles after one dispatch, whatever
  the answer: the interceptor passes its failure on.
\<close>

lemma retried_call_settles:
  "retry req \<Longrightarrow>
   \<exists>out. api_call (Suc n) e s req =
          (Some out, s\<lparr>sent := sent s @ [request_interceptor s req]\<rparr>)"
  by (cases "server e (sent s) (request_interceptor s req)") (simp_all add: Let_def)

text \<open>
  When the refresh request is answered with a success status and a body that can be
  destructured, the run is: the request, one refresh, one resubmission carrying the
  marker; then the promise settles, whatever the answer to the resubmission.
\<close>

lemma refresh_then_single_retry:
  assumes "server e (sent s) (request_interceptor s req) = Reply r" and "status r = 401"
    and "\<not> retry req" and "refreshToken s = Some rt" and "rt \<noteq> []"
    and "server e (sent s @ [request_interceptor s req])
           (request_interceptor s (refresh_request rt)) = Reply r2"
    and "200 \<le> status r2" and "status r2 < 300" and "\<not> nullish (data r2)"
  shows "\<exists>out s' again.
           api_call (Suc (Suc n)) e s req = (Some out, s') \<and>
           sent s' = sent s @ [request_interceptor s req,
                               request_interceptor s (refresh_request rt), again] \<and>
           retry again \<and> req_method again = req_method req \<and> url again = url req \<and>
           body again = body req"
proof -
  let ?c = "request_interceptor s req"
  let ?s1 = "s\<lparr>sent := sent s @ [?c]\<rparr>"
  let ?cr = "request_interceptor s (refresh_request rt)"
  let ?s1' = "?s1\<lparr>sent := sent ?s1 @ [?cr]\<rparr>"
  let ?a = "js_get (data r2) ''accessToken''"
  let ?s2 = "?s1'\<lparr>accessToken := Some (cookie_write e ?a),
                   refreshToken := Some (cookie_write e (js_get (data r2) ''refreshToken''))\<rparr>"
  let ?orig = "?c\<lparr>retry := True, authorization := Some (''Bearer '' @ js_string ?a)\<rparr>"
  let ?again = "request_interceptor ?s2 ?orig"
  have refresh: "api_call (Suc n) e ?s1 (refresh_request rt) = (Some (Resolved r2), ?s1')"
    using api_call_2xx [of e ?s1 "refresh_request rt" r2 n] assms(6-8) by simp
  have path: "refresh_path (api_call (Suc n) e) e ?s1 = (Some (Inr ?a), ?s2)"
    using assms(4,5,9) refresh by (simp add: refresh_path_def Let_def)
  have "response_rejected (api_call (Suc n) e) e ?s1 (AxiosError ?c (Some r)) =
      api_call (Suc n) e ?s2 ?orig"
    using assms(2,3) path by (simp add: Let_def del: api_call.simps)
  then have top: "api_call (Suc (Suc n)) e s req = api_call (Suc n) e ?s2 ?orig"
    using api_call_401 [OF assms(1,2), of "Suc n"] by (simp del: api_call.simps)
  have "retry ?orig" by simp
  from retried_call_settles [OF this, of n e ?s2]
  obtain out where "api_call (Suc n) e ?s2 ?orig = (Some out, ?s2\<lparr>sent := sent ?s2 @ [?again]\<rparr>)"
    by blast
  with top show ?thesis
    by (intro exI [of _ out] exI [of _ "?s2\<lparr>sent := sent ?s2 @ [?again]\<rparr>"] exI [of _ ?again])
       (simp del: api_call.simps)
qed

subsection \<open>A 401 answer to the refresh request\<close>

text \<open>
  The refresh request goes through the same client with a new config, which carries no
  marker. Against a server that answers 401 to everything, every call of the client
  therefore starts another refresh: the call does not settle at any depth, the refresh
  cookie stays, and the number of refresh requests grows with the depth.
\<close>

lemma deny_all_loops:
  "present (refreshToken s) \<Longrightarrow> \<not> retry req \<Longrightarrow>
   \<exists>s'. api_call n deny_all s req = (None, s') \<and> refreshToken s' = refreshToken s \<and>
        refresh_calls (sent s') =
          refresh_calls (sent s) + (if is_refresh req then n else n - 1)"
proof (induction n arbitrary: s req)
  case 0
  then show ?case by simp
next
  case (Suc n)
  let ?c = "request_interceptor s req"
  let ?s1 = "s\<lparr>sent := sent s @ [?c]\<rparr>"
  from Suc.prems obtain rt where rt: "refreshToken s = Some rt" "rt \<noteq> []"
    by (cases "refreshToken s") auto
  have "present (refreshToken ?s1)" using Suc.prems by simp
  from Suc.IH [OF this retry_refresh_request, of rt]
  obtain s' where s': "api_call n deny_all ?s1 (refresh_request rt) = (None, s')"
    "refreshToken s' = refreshToken ?s1"
    "refresh_calls (sent s') = refresh_calls (sent ?s1) + n"
    by auto
  have "api_call (Suc n) deny_all s req = (None, s')"
    using Suc.prems rt s' by (simp add: deny_all_def Let_def refresh_path_def)
  then show ?case using s' by auto
qed

lemma deny_all_keeps_session:
  "present (refreshToken s) \<Longrightarrow> \<not> retry req \<Longrightarrow>
   \<exists>s'. api_call n deny_all s req = (None, s') \<and> accessToken s' = accessToken s \<and>
        refreshToken s' = refreshToken s \<and> location s' = location s"
proof (induction n arbitrary: s req)
  case 0
  then show ?case by simp
next
  case (Suc n)
  let ?c = "request_interceptor s req"
  let ?s1 = "s\<lparr>sent := sent s @ [?c]\<rparr>"
  from Suc.prems obtain rt where rt: "refreshToken s = Some rt" "rt \<noteq> []"
    by (cases "refreshToken s") auto
  have "present (refreshToken ?s1)" using Suc.prems by simp
  from Suc.IH [OF this retry_refresh_request, of rt]
  obtain s' where s': "api_call n deny_all ?s1 (refresh_request rt) = (None, s')"
    "accessToken s' = accessToken ?s1" "refreshToken s' = refreshToken ?s1"
    "location s' = location ?s1"
    by auto
  have "api_call (Suc n) deny_all s req = (None, s')"
    using Suc.prems rt s' by (simp add: deny_all_def Let_def refresh_path_def)
  then show ?case using s' by auto
qed

text \<open>
  C1. The claim: a request that gets a 401 while a refresh token is stored leads to
  exactly one refresh call and one resubmission, also when the refresh request itself
  gets a 401. The code at that input: with the cookies \<open>a0\<close>/\<open>r0\<close> stored and a server
  that answers 401 to \<open>GET /users\<close> and to every \<open>POST /auth/refresh\<close>, the call has
  not settled at any depth \<open>n\<close>, and at depth \<open>n + 1\<close> it has sent \<open>n\<close> refresh
  requests.
\<close>

theorem refresh_401_starts_another_refresh:
  "fst (api_call n deny_all stale_session get_users) = None \<and>
   refresh_calls (sent (snd (api_call (Suc n) deny_all stale_session get_users))) = n"
proof -
  have p: "present (refreshToken stale_session)" by (simp add: stale_session_def)
  have r: "\<not> retry get_users" by (simp add: get_users_def)
  have g: "\<not> is_refresh get_users" by (simp add: get_users_def is_refresh_def)
  from deny_all_loops [OF p r, of n]
  have a: "fst (api_call n deny_all stale_session get_users) = None"
    by auto
  from deny_all_loops [OF p r, of "Suc n"] g
  have "refresh_calls (sent (snd (api_call (Suc n) deny_all stale_session get_users))) =
      refresh_calls (sent stale_session) + n"
    by auto
  then show ?thesis using a by (simp add: stale_session_def refresh_calls_def)
qed

subsection \<open>Failure of the refresh\<close>

text \<open>
  When the promise of \<open>api.post('/auth/refresh', ...)\<close> rejects with
  \<open>refreshError\<close>, the call for the original request rejects with \<open>refreshError\<close>,
  both cookies are removed, the location is the login page, and nothing is sent after
  the refresh exchange: the original request is not resubmitted.
\<close>

lemma refresh_rejection_clears_session:
  assumes "server e (sent s) (request_interceptor s req) = Reply r" and "status r = 401"
    and "\<not> retry req" and "refreshToken s = Some rt" and "rt \<noteq> []"
    and "api_call n e (s\<lparr>sent := sent s @ [request_interceptor s req]\<rparr>) (refresh_request rt) =
           (Some (Rejected refreshError), s2)"
  shows "api_call (Suc n) e s req =
           (Some (Rejected refreshError),
            s2\<lparr>accessToken := None, refreshToken := None, location := ''/login''\<rparr>)
         \<and> sent (snd (api_call (Suc n) e s req)) = sent s2"
proof -
  let ?c = "request_interceptor s req"
  let ?s1 = "s\<lparr>sent := sent s @ [?c]\<rparr>"
  have "refresh_path (api_call n e) e ?s1 = (Some (Inl refreshError), s2)"
    using assms(4-6) by (intro refresh_path_rejected) simp_all
  then have "response_rejected (api_call n e) e ?s1 (AxiosError ?c (Some r)) =
      refresh_failed s2 refreshError"
    using assms(2,3) by simp
  then show ?thesis using assms(1,2) by (simp add: Let_def refresh_failed_def)
qed

lemma refused_refresh_run:
  "api_call (Suc (Suc 0)) refuse_refresh stale_session get_users =
     (Some (Rejected (AxiosError
        \<lparr>req_method = POST, url = ''/auth/refresh'', authorization = Some ''Bearer a0'',
         body = JObj [(''refreshToken'', JStr ''r0'')], retry = False\<rparr>
        (Some \<lparr>status = 403, data = JNull\<rparr>))),
      \<lparr>accessToken = None, refreshToken = None, location = ''/login'',
       sent = [\<lparr>req_method = GET, url = ''/users'', authorization = Some ''Bearer a0'',
                body = JUndefined, retry = False\<rparr>,
               \<lparr>req_method = POST, url = ''/auth/refresh'', authorization = Some ''Bearer a0'',
                body = JObj [(''refreshToken'', JStr ''r0'')], retry = False\<rparr>]\<rparr>)"
proof -
  let ?c = "request_interceptor stale_session get_users"
  let ?r = "\<lparr>status = 401, data = JNull\<rparr>"
  let ?cr = "\<lparr>req_method = POST, url = ''/auth/refresh'', authorization = Some ''Bearer a0'',
         body = JObj [(''refreshToken'', JStr ''r0'')], retry = False\<rparr>"
  let ?s2 = "\<lparr>accessToken = Some ''a0'', refreshToken = Some ''r0'', location = ''/users'',
       sent = [?c, ?cr]\<rparr>"
  have h1: "server refuse_refresh (sent stale_session) ?c = Reply ?r"
    by (simp add: refuse_refresh_def get_users_def)
  have h2: "status ?r = 401" by simp
  have h3: "\<not> retry get_users" by (simp add: get_users_def)
  have h4: "refreshToken stale_session = Some ''r0''" by (simp add: stale_session_def)
  have h5: "''r0'' \<noteq> []" by simp
  have h6: "api_call (Suc 0) refuse_refresh (stale_session\<lparr>sent := sent stale_session @ [?c]\<rparr>)
              (refresh_request ''r0'') =
            (Some (Rejected (AxiosError ?cr (Some \<lparr>status = 403, data = JNull\<rparr>))), ?s2)"
    by (simp add: refuse_refresh_def stale_session_def refresh_request_def
        request_interceptor_def Let_def)
  show ?thesis
    using refresh_rejection_clears_session [OF h1 h2 h3 h4 h5 h6]
    by (simp add: request_interceptor_def stale_session_def get_users_def)
qed

text \<open>
  When the 401 branch of the rejection handler is taken and the \<open>try\<close> block throws,
  the handler removes both cookies, sets the location to the login page and rejects
  with the thrown error. When no refresh token is stored that error is the synthesized
  \<open>No refresh token available\<close>, which is not the 401 error the handler was called
  with, and nothing has been sent.
\<close>

lemma refresh_path_failure_rejects_with_its_error:
  assumes "is_401 resp" and "\<not> retry config"
    and "refresh_path api e s = (Some (Inl refreshError), s1)"
  shows "response_rejected api e s (AxiosError config resp) =
           (Some (Rejected refreshError),
            s1\<lparr>accessToken := None, refreshToken := None, location := ''/login''\<rparr>)
         \<and> (\<not> present (refreshToken s) \<longrightarrow>
              refreshError = Error ''No refresh token available'' \<and> s1 = s
              \<and> refreshError \<noteq> AxiosError config resp)"
proof -
  have "response_rejected api e s (AxiosError config resp) = refresh_failed s1 refreshError"
    using assms by simp
  moreover have "\<not> present (refreshToken s) \<longrightarrow>
      refreshError = Error ''No refresh token available'' \<and> s1 = s"
    using assms(3) refresh_path_no_token [of s api e] by auto
  ultimately show ?thesis by (auto simp: refresh_failed_def)
qed

lemma missing_token_in_branch_run:
  "response_rejected (api_call (Suc 0) deny_all) deny_all no_refresh_session
      (AxiosError get_users (Some \<lparr>status = 401, data = JNull\<rparr>)) =
     (Some (Rejected (Error ''No refresh token available'')),
      \<lparr>accessToken = None, refreshToken = None, location = ''/login'', sent = []\<rparr>)"
proof -
  have a: "is_401 (Some \<lparr>status = 401, data = JNull\<rparr>)" by simp
  have b: "\<not> retry get_users" by (simp add: get_users_def)
  have c: "refresh_path (api_call (Suc 0) deny_all) deny_all no_refresh_session =
      (Some (Inl (Error ''No refresh token available'')), no_refresh_session)"
    by (simp add: refresh_path_def no_refresh_session_def)
  show ?thesis
    using refresh_path_failure_rejects_with_its_error [OF a b c]
    by (simp add: no_refresh_session_def)
qed

text \<open>
  The ways the refresh fails with a settled promise, computed from the answer of the
  server: an answer with a status outside \<open>200..299\<close> other than 401, or no answer,
  rejects with the error of the refresh request; a success answer whose body is
  \<open>null\<close> or \<open>undefined\<close> rejects with the TypeError of the destructuring. In both
  cases the cookies are removed, the location is the login page, and the requests sent
  are the original one and the refresh.
\<close>

lemma api_call_refused:
  assumes "server e (sent s) (request_interceptor s req) = rep"
    and "\<And>r. rep = Reply r \<Longrightarrow> \<not> (200 \<le> status r \<and> status r < 300) \<and> status r \<noteq> 401"
  shows "api_call (Suc n) e s req =
           (Some (Rejected (AxiosError (request_interceptor s req) (response_of rep))),
            s\<lparr>sent := sent s @ [request_interceptor s req]\<rparr>)"
  using assms by (cases rep) (auto simp: Let_def)

lemma refresh_refused_clears_session:
  assumes "server e (sent s) (request_interceptor s req) = Reply r" and "status r = 401"
    and "\<not> retry req" and "refreshToken s = Some rt" and "rt \<noteq> []"
    and "server e (sent s @ [request_interceptor s req])
           (request_interceptor s (refresh_request rt)) = rep"
    and "\<And>r2. rep = Reply r2 \<Longrightarrow> \<not> (200 \<le> status r2 \<and> status r2 < 300) \<and> status r2 \<noteq> 401"
  shows "api_call (Suc (Suc n)) e s req =
           (Some (Rejected (AxiosError (request_interceptor s (refresh_request rt)) (response_of rep))),
            s\<lparr>sent := sent s @ [request_interceptor s req, request_interceptor s (refresh_request rt)],
               accessToken := None, refreshToken := None, location := ''/login''\<rparr>)"
proof -
  let ?c = "request_interceptor s req"
  let ?s1 = "s\<lparr>sent := sent s @ [?c]\<rparr>"
  let ?cr = "request_interceptor s (refresh_request rt)"
  have "api_call (Suc n) e ?s1 (refresh_request rt) =
      (Some (Rejected (AxiosError ?cr (response_of rep))), ?s1\<lparr>sent := sent ?s1 @ [?cr]\<rparr>)"
    using api_call_refused [of e ?s1 "refresh_request rt" rep n] assms(6,7) by simp
  from refresh_rejection_clears_session [OF assms(1-5) this]
  show ?thesis by (simp del: api_call.simps)
qed

lemma refresh_null_body_clears_session:
  assumes "server e (sent s) (request_interceptor s req) = Reply r" and "status r = 401"
    and "\<not> retry req" and "refreshToken s = Some rt" and "rt \<noteq> []"
    and "server e (sent s @ [request_interceptor s req])
           (request_interceptor s (refresh_request rt)) = Reply r2"
    and "200 \<le> status r2" and "status r2 < 300" and "nullish (data r2)"
  shows "api_call (Suc (Suc n)) e s req =
           (Some (Rejected TypeError),
            s\<lparr>sent := sent s @ [request_interceptor s req, request_interceptor s (refresh_request rt)],
               accessToken := None, refreshToken := None, location := ''/login''\<rparr>)"
proof -
  let ?c = "request_interceptor s req"
  let ?s1 = "s\<lparr>sent := sent s @ [?c]\<rparr>"
  let ?cr = "request_interceptor s (refresh_request rt)"
  have refresh: "api_call (Suc n) e ?s1 (refresh_request rt) =
      (Some (Resolved r2), ?s1\<lparr>sent := sent ?s1 @ [?cr]\<rparr>)"
    using api_call_2xx [of e ?s1 "refresh_request rt" r2 n] assms(6-8) by simp
  have path: "refresh_path (api_call (Suc n) e) e ?s1 =
      (Some (Inl TypeError), ?s1\<lparr>sent := sent ?s1 @ [?cr]\<rparr>)"
    using assms(4,5,9) refresh by (simp add: refresh_path_def del: api_call.simps)
  have "response_rejected (api_call (Suc n) e) e ?s1 (AxiosError ?c (Some r)) =
      refresh_failed (?s1\<lparr>sent := sent ?s1 @ [?cr]\<rparr>) TypeError"
    using assms(2,3) path by (simp del: api_call.simps)
  then show ?thesis
    using api_call_401 [OF assms(1,2), of "Suc n"]
    by (simp add: refresh_failed_def del: api_call.simps)
qed

text \<open>
  C2. The claim: if the token-refresh call fails, both cookies are removed, the
  application is redirected to the login page, the caller's promise rejects with the
  refresh error and there is no further retry. The code where the refresh fails with a
  401 (the server of C1, which answers 401 to \<open>GET /users\<close> and to every
  \<open>POST /auth/refresh\<close>, the cookies \<open>a0\<close>/\<open>r0\<close> stored): at no depth has the
  call settled, so the caller's promise is never rejected, and at every depth both
  cookies are still stored and the location is still \<open>/users\<close>.
\<close>

theorem refresh_401_clears_no_session:
  "fst (api_call n deny_all stale_session get_users) = None \<and>
   accessToken (snd (api_call n deny_all stale_session get_users)) = Some ''a0'' \<and>
   refreshToken (snd (api_call n deny_all stale_session get_users)) = Some ''r0'' \<and>
   location (snd (api_call n deny_all stale_session get_users)) = ''/users''"
proof -
  have p: "present (refreshToken stale_session)" by (simp add: stale_session_def)
  have r: "\<not> retry get_users" by (simp add: get_users_def)
  from deny_all_keeps_session [OF p r, of n] show ?thesis
    by (auto simp: stale_session_def)
qed

text \<open>
  C10. The claim: whenever the 401 branch of the rejection handler is taken and the
  refresh path fails for any reason, both cookies are removed, the application is
  redirected and the promise rejects with the error of the refresh path. The code where
  the reason is a 401 answer to the refresh request: the handler is called with the
  401 error of an unmarked request, so the branch is taken; against the server of C1
  it has not settled at any depth, and both cookies and the location are as they were.
\<close>

theorem refresh_401_in_branch_removes_nothing:
  "is_401 (Some \<lparr>status = 401, data = JNull\<rparr>) \<and> \<not> retry get_users \<and>
   fst (response_rejected (api_call n deny_all) deny_all stale_session
          (AxiosError get_users (Some \<lparr>status = 401, data = JNull\<rparr>))) = None \<and>
   accessToken (snd (response_rejected (api_call n deny_all) deny_all stale_session
          (AxiosError get_users (Some \<lparr>status = 401, data = JNull\<rparr>)))) = Some ''a0'' \<and>
   refreshToken (snd (response_rejected (api_call n deny_all) deny_all stale_session
          (AxiosError get_users (Some \<lparr>status = 401, data = JNull\<rparr>)))) = Some ''r0'' \<and>
   location (snd (response_rejected (api_call n deny_all) deny_all stale_session
          (AxiosError get_users (Some \<lparr>status = 401, data = JNull\<rparr>)))) = ''/users''"
proof -
  have p: "present (refreshToken stale_session)" by (simp add: stale_session_def)
  from deny_all_keeps_session [OF p retry_refresh_request, of n "''r0''"]
  obtain s' where s': "api_call n deny_all stale_session (refresh_request ''r0'') = (None, s')"
    "accessToken s' = accessToken stale_session" "refreshToken s' = refreshToken stale_session"
    "location s' = location stale_session"
    by auto
  have "refresh_path (api_call n deny_all) deny_all stale_session = (None, s')"
    using s'(1) by (simp add: refresh_path_def stale_session_def)
  then have "response_rejected (api_call n deny_all) deny_all stale_session
      (AxiosError get_users (Some \<lparr>status = 401, data = JNull\<rparr>)) = (None, s')"
    by (simp add: get_users_def)
  then show ?thesis using s'(2-4) by (simp add: stale_session_def get_users_def)
qed

subsection \<open>No refresh token\<close>

text \<open>
  C3, as stated: every request that gets a 401 while no refresh token is stored has the
  stored access token cleared. A request that carries the retry marker is passed on by
  the guard of the handler: it gets the 401, no refresh token is stored, and the access
  token \<open>a0\<close> is still stored afterwards.
\<close>

theorem retried_401_keeps_access_token:
  "server deny_all (sent no_refresh_session)
     (request_interceptor no_refresh_session retried_get_users) =
     Reply \<lparr>status = 401, data = JNull\<rparr> \<and>
   refreshToken no_refresh_session = None \<and>
   accessToken (snd (api_call (Suc 0) deny_all no_refresh_session retried_get_users)) = Some ''a0''"
  by (simp add: deny_all_def no_refresh_session_def retried_get_users_def get_users_def
      request_interceptor_def Let_def)

text \<open>
  C3, amended: for every request without the retry marker that gets a 401 while no
  refresh token is stored (none, or the empty string), the only request sent is the
  request itself, so no refresh call is made; the call rejects at once, with the
  synthesized error; and the access token is removed (as is the refresh cookie, and the
  location becomes the login page).
\<close>

theorem missing_refresh_token_propagates:
  assumes "server e (sent s) (request_interceptor s req) = Reply r" and "status r = 401"
    and "\<not> retry req" and "\<not> present (refreshToken s)"
  shows "api_call (Suc n) e s req =
           (Some (Rejected (Error ''No refresh token available'')),
            s\<lparr>sent := sent s @ [request_interceptor s req],
               accessToken := None, refreshToken := None, location := ''/login''\<rparr>)"
proof -
  let ?c = "request_interceptor s req"
  let ?s1 = "s\<lparr>sent := sent s @ [?c]\<rparr>"
  have "refresh_path (api_call n e) e ?s1 =
      (Some (Inl (Error ''No refresh token available'')), ?s1)"
    using assms(4) by (intro refresh_path_no_token) simp
  then have "response_rejected (api_call n e) e ?s1 (AxiosError ?c (Some r)) =
      refresh_failed ?s1 (Error ''No refresh token available'')"
    using assms(2,3) by simp
  then show ?thesis using assms(1,2) by (simp add: Let_def refresh_failed_def)
qed

theorem missing_refresh_token_propagates_witness:
  "api_call (Suc 0) deny_all no_refresh_session get_users =
     (Some (Rejected (Error ''No refresh token available'')),
      \<lparr>accessToken = None, refreshToken = None, location = ''/login'',
       sent = [\<lparr>req_method = GET, url = ''/users'', authorization = Some ''Bearer a0'',
                body = JUndefined, retry = False\<rparr>]\<rparr>)"
proof -
  let ?r = "\<lparr>status = 401, data = JNull\<rparr>"
  have h1: "server deny_all (sent no_refresh_session)
      (request_interceptor no_refresh_session get_users) = Reply ?r"
    by (simp add: deny_all_def)
  have h2: "status ?r = 401" by simp
  have h3: "\<not> retry get_users" by (simp add: get_users_def)
  have h4: "\<not> present (refreshToken no_refresh_session)"
    by (simp add: no_refresh_session_def)
  show ?thesis
    using missing_refresh_token_propagates [OF h1 h2 h3 h4, of 0]
    by (simp add: request_interceptor_def no_refresh_session_def get_users_def)
qed

section \<open>Properties of the error message extraction\<close>

lemma isAxiosError_not_nullish: "isAxiosError v \<Longrightarrow> \<not> nullish v"
  by (cases v) (simp_all add: isAxiosError_def)

text \<open>
  C4, as stated: the extractor returns the server-provided message whenever the input
  carries a server response with a message field, and one fixed fallback string
  otherwise. The axios error of a 400 answer with the body \<open>{message: ""}\<close> carries a
  response with a message field, and the result is not that message but a fallback;
  and the fallback is not one string: an axios error without a response gives
  \<open>An error occurred\<close>, the value \<open>null\<close> gives \<open>An unexpected error occurred\<close>.
\<close>

theorem empty_message_and_two_fallbacks:
  "server_message empty_message_error = JStr '''' \<and>
   handleApiError empty_message_error = Inr (JStr ''An error occurred'') \<and>
   handleApiError no_response_error = Inr (JStr ''An error occurred'') \<and>
   handleApiError JNull = Inr (JStr ''An unexpected error occurred'')"
  by (simp add: empty_message_error_def no_response_error_def server_message_def
      handleApiError_def isAxiosError_def js_read_def js_get_opt_def js_or_def)

text \<open>
  C4, amended: for every input value the extractor returns without throwing; for an
  axios error whose response carries a truthy message (a non-empty string, say) it
  returns that message; for every other axios error it returns \<open>An error occurred\<close>;
  for every value that is not an axios error it returns \<open>An unexpected error occurred\<close>.
\<close>

theorem handleApiError_total:
  "handleApiError error =
     Inr (if isAxiosError error then
            if truthy (server_message error) then server_message error
            else JStr ''An error occurred''
          else JStr ''An unexpected error occurred'')"
proof (cases "isAxiosError error")
  case True
  then have "js_read error ''response'' = Inr (js_get error ''response'')"
    using isAxiosError_not_nullish [of error] by (simp add: js_read_def)
  with True show ?thesis
    by (simp add: handleApiError_def server_message_def js_or_def)
next
  case False
  then show ?thesis by (simp add: handleApiError_def)
qed

lemma catch_error_eq:
  "catch_error err old =
     (if isAxiosError (thrown err) then
        if truthy (server_message (thrown err)) then server_message (thrown err)
        else JStr ''An error occurred''
      else JStr ''An unexpected error occurred'')"
proof -
  have "handleApiError (thrown err) =
     Inr (if isAxiosError (thrown err) then
            if truthy (server_message (thrown err)) then server_message (thrown err)
            else JStr ''An error occurred''
          else JStr ''An unexpected error occurred'')"
    by (cases "isAxiosError (thrown err)")
       (simp_all add: handleApiError_def server_message_def js_or_def js_read_def
          isAxiosError_not_nullish)
  then show ?thesis by (simp add: catch_error_def)
qed

lemma catch_error_plain [simp]:
  "catch_error (Error msg) old = JStr ''An unexpected error occurred''"
  "catch_error TypeError old = JStr ''An unexpected error occurred''"
  by (simp_all add: catch_error_eq isAxiosError_def)

lemma handleApiError_plain [simp]:
  "handleApiError (thrown (Error msg)) = Inr (JStr ''An unexpected error occurred'')"
  "handleApiError (thrown TypeError) = Inr (JStr ''An unexpected error occurred'')"
  by (simp_all add: handleApiError_def isAxiosError_def)

section \<open>Properties of the page view-models\<close>

subsection \<open>List fetches\<close>

lemma map_rows_all: "\<not> list_ex nullish xs \<Longrightarrow> map_rows f xs = Inr (map f xs)"
  by (induction xs) simp_all

lemma fetchUsers_failed_plain [simp]:
  "fetchUsers_failed (Error msg) st =
     st\<lparr>up_error := JStr ''An unexpected error occurred'', up_users := [], up_loading := False\<rparr>"
  "fetchUsers_failed TypeError st =
     st\<lparr>up_error := JStr ''An unexpected error occurred'', up_users := [], up_loading := False\<rparr>"
  by (simp_all add: fetchUsers_failed_def del: thrown.simps)

lemma fetchRoles_failed_plain [simp]:
  "fetchRoles_failed (Error msg) st =
     st\<lparr>rp_error := JStr ''An unexpected error occurred'', rp_roles := [], rp_loading := False\<rparr>"
  "fetchRoles_failed TypeError st =
     st\<lparr>rp_error := JStr ''An unexpected error occurred'', rp_roles := [], rp_loading := False\<rparr>"
  by (simp_all add: fetchRoles_failed_def del: thrown.simps)

lemma fetchUsers_bare:
  "fetchUsers (answered (JArr xs)) st =
     st\<lparr>up_loading := False, up_calls := up_calls st @ [http GET ''/users'' JUndefined],
        up_error := JStr ''An unexpected error occurred'', up_users := []\<rparr>"
  by (simp add: fetchUsers_def answered_def users_of_response_def Let_def)

lemma fetchUsers_envelope:
  "\<not> nullish b \<Longrightarrow> truthy (js_get b ''success'') \<Longrightarrow> js_get b ''data'' = JArr xs \<Longrightarrow>
   \<not> list_ex nullish xs \<Longrightarrow>
   fetchUsers (answered b) st =
     st\<lparr>up_loading := False, up_calls := up_calls st @ [http GET ''/users'' JUndefined],
        up_error := JNull, up_users := map normalize_user xs\<rparr>"
  by (simp add: fetchUsers_def answered_def users_of_response_def Let_def map_rows_all)

lemma fetchRoles_bare:
  "fetchRoles (answered (JArr xs)) st =
     st\<lparr>rp_loading := False, rp_calls := rp_calls st @ [http GET ''/roles'' JUndefined],
        rp_error := JStr ''An unexpected error occurred'', rp_roles := []\<rparr>"
  by (simp add: fetchRoles_def answered_def roles_of_response_def Let_def)

lemma fetchRoles_envelope:
  "\<not> nullish b \<Longrightarrow> truthy (js_get b ''success'') \<Longrightarrow> js_get b ''data'' = JArr xs \<Longrightarrow>
   fetchRoles (answered b) st =
     st\<lparr>rp_loading := False, rp_calls := rp_calls st @ [http GET ''/roles'' JUndefined],
        rp_error := JNull, rp_roles := xs\<rparr>"
  by (simp add: fetchRoles_def answered_def roles_of_response_def Let_def)

lemma users_fetchCompanies_bare:
  "\<not> list_ex nullish xs \<Longrightarrow>
   users_fetchCompanies (answered (JArr xs)) st =
     st\<lparr>up_calls := up_calls st @ [http GET ''/companies'' JUndefined],
        up_companies := map format_company xs\<rparr>"
  by (simp add: users_fetchCompanies_def answered_def companies_of_response_def Let_def map_rows_all)

lemma users_fetchCompanies_envelope:
  "users_fetchCompanies (answered (JObj kvs)) st =
     st\<lparr>up_calls := up_calls st @ [http GET ''/companies'' JUndefined],
        up_error := JStr ''An unexpected error occurred''\<rparr>"
  by (simp add: users_fetchCompanies_def answered_def companies_of_response_def Let_def)

lemma fetchCompanies_stores:
  "fetchCompanies (answered b) st =
     st\<lparr>cp_calls := cp_calls st @ [http GET ''/companies'' JUndefined],
        cp_companies := b, cp_loading := False\<rparr>"
  by (simp add: fetchCompanies_def answered_def Let_def)

lemma fetchDevices_stores:
  "fetchDevices (answered b) st =
     st\<lparr>dp_calls := dp_calls st @ [http GET ''/devices'' JUndefined],
        dp_devices := b, dp_error := JNull, dp_loading := False\<rparr>"
  by (simp add: fetchDevices_def answered_def Let_def)

text \<open>
  C5, as stated: every list fetch accepts a successful response whether its body is the
  envelope or a bare array. The users fetch, given a 200 response whose body is the bare
  array of one user, ends with an empty list and an error, while it takes the same user
  from the envelope.
\<close>

theorem users_fetch_rejects_bare_array:
  "up_users (fetchUsers (answered (JArr [wire_user])) users_initial) = [] \<and>
   up_error (fetchUsers (answered (JArr [wire_user])) users_initial) =
     JStr ''An unexpected error occurred'' \<and>
   up_users (fetchUsers (answered (JObj [(''success'', JBool True), (''data'', JArr [wire_user])]))
      users_initial) = [normalize_user wire_user]"
  by (simp add: fetchUsers_bare fetchUsers_envelope wire_user_def)

text \<open>
  C5, amended: every list fetch accepts the one body shape its endpoint is expected to
  return. The users and roles fetches accept the envelope (\<open>success\<close> truthy, \<open>data\<close>
  an array) and reject a bare array: the list is emptied and the error is set. The
  companies fetch of the users page accepts a bare array and rejects an object such as
  the envelope, keeping the list it had and setting the error. The fetches of the
  companies page and of the devices page store the body as it came, whatever it is.
\<close>

theorem list_fetch_accepts_one_shape:
  "up_users (fetchUsers (answered (JArr xs)) us) = []
   \<and> up_error (fetchUsers (answered (JArr xs)) us) = JStr ''An unexpected error occurred''
   \<and> rp_roles (fetchRoles (answered (JArr xs)) rs) = []
   \<and> rp_error (fetchRoles (answered (JArr xs)) rs) = JStr ''An unexpected error occurred''
   \<and> (truthy ok \<and> \<not> list_ex nullish xs \<longrightarrow>
        up_users (fetchUsers (answered (JObj [(''success'', ok), (''data'', JArr xs)])) us) =
          map normalize_user xs
        \<and> up_error (fetchUsers (answered (JObj [(''success'', ok), (''data'', JArr xs)])) us) = JNull)
   \<and> (truthy ok \<longrightarrow>
        rp_roles (fetchRoles (answered (JObj [(''success'', ok), (''data'', JArr xs)])) rs) = xs
        \<and> rp_error (fetchRoles (answered (JObj [(''success'', ok), (''data'', JArr xs)])) rs) = JNull)
   \<and> (\<not> list_ex nullish xs \<longrightarrow>
        up_companies (users_fetchCompanies (answered (JArr xs)) us) = map format_company xs)
   \<and> up_companies (users_fetchCompanies (answered (JObj kvs)) us) = up_companies us
   \<and> up_error (users_fetchCompanies (answered (JObj kvs)) us) = JStr ''An unexpected error occurred''
   \<and> cp_companies (fetchCompanies (answered b) cs) = b
   \<and> dp_devices (fetchDevices (answered b) ds) = b"
proof -
  let ?env = "JObj [(''success'', ok), (''data'', JArr xs)]"
  have e: "\<not> nullish ?env" "js_get ?env ''success'' = ok" "js_get ?env ''data'' = JArr xs"
    by simp_all
  have u: "truthy ok \<and> \<not> list_ex nullish xs \<longrightarrow>
        up_users (fetchUsers (answered ?env) us) = map normalize_user xs
        \<and> up_error (fetchUsers (answered ?env) us) = JNull"
    using fetchUsers_envelope [of ?env xs us] by simp
  have r: "truthy ok \<longrightarrow>
        rp_roles (fetchRoles (answered ?env) rs) = xs \<and> rp_error (fetchRoles (answered ?env) rs) = JNull"
    using fetchRoles_envelope [of ?env xs rs] by simp
  have c: "\<not> list_ex nullish xs \<longrightarrow>
        up_companies (users_fetchCompanies (answered (JArr xs)) us) = map format_company xs"
    by (simp add: users_fetchCompanies_bare)
  show ?thesis
    using u r c
    by (simp only: fetchUsers_bare fetchRoles_bare users_fetchCompanies_envelope
        fetchCompanies_stores fetchDevices_stores) simp
qed

theorem list_fetch_accepts_one_shape_witness:
  "up_users (fetchUsers (answered (JObj [(''success'', JBool True), (''data'', JArr [wire_user])]))
      users_initial) = [normalize_user wire_user] \<and>
   rp_roles (fetchRoles (answered (JObj [(''success'', JBool True), (''data'', JArr [wire_user])]))
      roles_initial) = [wire_user] \<and>
   up_companies (users_fetchCompanies (answered (JArr [wire_user])) users_initial) =
     [format_company wire_user]"
  using list_fetch_accepts_one_shape [where xs = "[wire_user]" and ok = "JBool True"
      and us = users_initial and rs = roles_initial and kvs = "[]" and b = JNull
      and cs = companies_initial and ds = devices_initial]
  by (simp add: wire_user_def)

lemma users_submitted_calls:
  "up_calls (users_submitted out refetch s) = up_calls s @ refetch_calls out"
  by (cases out rule: refetch_calls.cases)
     (simp_all add: users_submitted_def fetchUsers_def fetchUsers_failed_def Let_def
        split: sum.splits option.splits outcome.splits)

text \<open>
  C6. On the users page, a submission whose password is blank (absent or empty): as an
  update it issues a PUT for the selected user whose payload has all the other form
  fields and no password field (followed by the refetch when the PUT resolves); as a
  create it issues no request at all and sets the error
  \<open>Password is required for new users\<close>.
\<close>

theorem blank_password_policy:
  assumes "blank (fd_password d)"
  shows "(up_selectedUser st = Some selectedUser \<longrightarrow>
           up_calls (users_onSubmit d out refetch st) =
             up_calls st @
             [http PUT (''/users/'' @ js_string (u_id selectedUser))
                (JObj [(''email'', JStr (fd_email d)), (''firstName'', JStr (fd_firstName d)),
                       (''lastName'', JStr (fd_lastName d)), (''role'', JStr (fd_role d)),
                       (''status'', JStr (fd_status d)), (''companyId'', JStr (fd_companyId d))])]
             @ refetch_calls out)
       \<and> (up_selectedUser st = None \<longrightarrow>
           users_onSubmit d out refetch st =
             st\<lparr>up_error := JStr ''Password is required for new users''\<rparr>)"
  using assms by (simp add: users_onSubmit_def users_submitted_calls user_payload_def Let_def)

theorem blank_password_policy_witness:
  "up_calls (users_onSubmit blank_update None None
      (handleEdit (normalize_user wire_user) users_initial)) =
     [http PUT ''/users/7''
        (JObj [(''email'', JStr ''a@b.com''), (''firstName'', JStr ''Ada''),
               (''lastName'', JStr ''Lovelace''), (''role'', JStr ''admin''),
               (''status'', JStr ''active''),
               (''companyId'', JStr ''123e4567-e89b-12d3-a456-426614174000'')])] \<and>
   users_onSubmit blank_update None None users_initial =
     users_initial\<lparr>up_error := JStr ''Password is required for new users''\<rparr>"
proof -
  have b: "blank (fd_password blank_update)" by (simp add: blank_update_def)
  show ?thesis
    using blank_password_policy [OF b, where st = "handleEdit (normalize_user wire_user) users_initial"
        and selectedUser = "normalize_user wire_user" and out = None and refetch = None]
      blank_password_policy [OF b, where st = users_initial and out = None and refetch = None]
    by (simp add: handleEdit_def users_initial_def normalize_user_def wire_user_def js_or_def
        blank_update_def)
qed

subsection \<open>Edit round trip\<close>














text \<open>
  A device that comes without a push interval shows an empty number input, which reads
  as \<open>NaN\<close>: the schema rejects it and nothing is sent. One that comes without
  \<open>enabled\<close> shows the switch off and is sent with \<open>enabled: false\<close>.
\<close>

lemma missing_push_interval_no_put:
  "dv_push_interval (ep_form st) = JUndefined \<Longrightarrow> device_handleSubmit lib i out st = st"
  by (simp add: device_handleSubmit_def device_inputs_def number_input_def deviceSchema_def
      push_interval_field_def split: option.splits)

lemma missing_push_interval_example:
  "device_handleSubmit as_is ''1'' None
      (fetchDevice ''1'' (answered wire_device_without_interval) edit_initial) =
   fetchDevice ''1'' (answered wire_device_without_interval) edit_initial"
  by (rule missing_push_interval_no_put)
    (simp add: fetchDevice_def answered_def wire_device_without_interval_def formData_def
      js_or_def Let_def)

lemma missing_enabled_sent_false:
  "ep_calls (device_handleSubmit as_is ''1'' None
      (fetchDevice ''1'' (answered wire_device_without_enabled) edit_initial)) =
   [http GET ''/devices/1'' JUndefined,
    http PUT ''/devices/1''
      (JObj [(''type'', JStr ''sensor''), (''company_id'', JStr ''c1''),
             (''status'', JStr ''online''), (''location'', JStr ''lab''),
             (''physical_address'', JStr ''1 Main Street''),
             (''payload_schema'', JObj [(''t'', JStr ''number'')]),
             (''push_interval'', JNum 30), (''enabled'', JBool False)])]"
  by (simp add: fetchDevice_def answered_def wire_device_without_enabled_def edit_initial_def
      formData_def js_or_def device_handleSubmit_def device_inputs_def held_def number_input_def
      checkbox_input_def deviceSchema_def bounded_string_def
      status_field_def payload_schema_field_def push_interval_field_def enabled_field_def
      device_onSubmit_def device_payload_def Let_def)



















subsection \<open>Deleting a device\<close>

lemma filter_rows_filter:
  "filter_rows p ds = Inr rows \<Longrightarrow> filter_rows p (filter q ds) = Inr (filter q rows)"
proof (induction ds arbitrary: rows)
  case Nil
  then show ?case by simp
next
  case (Cons d ds)
  then show ?case by (auto split: sum.splits if_splits)
qed

lemma filter_rows_no_nullish:
  "filter_rows (row_matches lower t) ds = Inr rows \<Longrightarrow> \<not> list_ex nullish ds"
proof (induction ds arbitrary: rows)
  case Nil
  then show ?case by simp
next
  case (Cons d ds)
  then show ?case by (auto simp: row_matches_def split: sum.splits if_splits)
qed

lemma handleDelete_declined: "handleDelete False i out st = st"
  by (simp add: handleDelete_def handleDelete_click_def)

lemma handleDelete_succeeded:
  "dp_devices st = JArr ds \<Longrightarrow> \<not> list_ex nullish ds \<Longrightarrow>
   handleDelete True i (Some (Resolved r)) st =
     st\<lparr>dp_calls := dp_calls st @ [http DELETE (''/devices/'' @ i) JUndefined],
        dp_devices := JArr (filter (\<lambda>device. js_get device ''id'' \<noteq> JStr i) ds),
        dp_error := JNull\<rparr>"
  by (simp add: handleDelete_def handleDelete_click_def handleDelete_settled_def without_id_def)

lemma rendered_after_delete:
  assumes "dp_devices st = JArr ds" and "filteredDevices lower st = Inr rows"
  shows "paginatedDevices lower (handleDelete True i (Some (Resolved r)) st) =
           Inr (page_slice st (filter (\<lambda>device. js_get device ''id'' \<noteq> JStr i) rows))"
proof -
  have f: "filter_rows (row_matches lower (dp_searchTerm st)) ds = Inr rows"
    using assms by (simp add: filteredDevices_def)
  then have n: "\<not> list_ex nullish ds" by (rule filter_rows_no_nullish)
  show ?thesis
    using filter_rows_filter [OF f]
    by (simp add: handleDelete_succeeded [OF assms(1) n] paginatedDevices_def
        filteredDevices_def page_slice_def)
qed

lemma seven_rows:
  "filteredDevices no_capitals seven_devices =
     Inr [device_no ''1'', device_no ''2'', device_no ''3'', device_no ''4'', device_no ''5'',
          device_no ''6'', device_no ''7'']"
  by (simp add: filteredDevices_def seven_devices_def row_matches_def lowered_includes_def
      device_no_def startsWith_def no_capitals_def)

text \<open>
  Two deletes in flight at once: the second is clicked before the first settles, so the
  list its closure holds still has the first device, and when it settles after the first
  it puts that device back. Device 1 was deleted on the server and is in the list again.
\<close>

lemma overlapping_deletes_restore_row:
  "dp_devices
     (handleDelete_settled ''2'' (dp_devices (handleDelete_click True ''1'' seven_devices))
        (Resolved \<lparr>status = 200, data = JNull\<rparr>)
        (handleDelete_settled ''1'' (dp_devices seven_devices)
           (Resolved \<lparr>status = 200, data = JNull\<rparr>)
           (handleDelete_click True ''2'' (handleDelete_click True ''1'' seven_devices)))) =
   JArr [device_no ''1'', device_no ''3'', device_no ''4'', device_no ''5'', device_no ''6'',
         device_no ''7'']"
  by (simp add: handleDelete_click_def handleDelete_settled_def without_id_def seven_devices_def
      device_no_def)

text \<open>
  C9, as stated: on a successful delete of the device with identifier X the rendered
  device list equals the previous list with exactly the entries whose id is X removed
  and every other entry unchanged. The table renders one page of the list. With seven
  devices and five rows a page, the first page shows devices 1 to 5; after device 1 is
  deleted it shows devices 2 to 6. That is neither the rows rendered before without
  device 1 (devices 2 to 5) nor the whole list without device 1 (devices 2 to 7).
\<close>

theorem next_page_row_moves_up:
  "dp_devices seven_devices =
     JArr [device_no ''1'', device_no ''2'', device_no ''3'', device_no ''4'', device_no ''5'',
           device_no ''6'', device_no ''7''] \<and>
   paginatedDevices no_capitals seven_devices =
     Inr [device_no ''1'', device_no ''2'', device_no ''3'', device_no ''4'', device_no ''5''] \<and>
   paginatedDevices no_capitals (handleDelete True ''1'' (answered JNull) seven_devices) =
     Inr [device_no ''2'', device_no ''3'', device_no ''4'', device_no ''5'', device_no ''6'']"
proof -
  have d: "dp_devices seven_devices =
      JArr [device_no ''1'', device_no ''2'', device_no ''3'', device_no ''4'', device_no ''5'',
          device_no ''6'', device_no ''7'']"
    by (simp add: seven_devices_def)
  have a: "paginatedDevices no_capitals seven_devices =
     Inr [device_no ''1'', device_no ''2'', device_no ''3'', device_no ''4'', device_no ''5'']"
    by (simp add: paginatedDevices_def seven_rows page_slice_def) (simp add: seven_devices_def)
  have b: "paginatedDevices no_capitals (handleDelete True ''1'' (answered JNull) seven_devices) =
     Inr [device_no ''2'', device_no ''3'', device_no ''4'', device_no ''5'', device_no ''6'']"
    unfolding answered_def
    by (simp add: rendered_after_delete [OF d seven_rows] page_slice_def)
       (simp add: seven_devices_def device_no_def)
  from d a b show ?thesis by blast
qed

text \<open>
  C9, amended: declining the confirmation issues no request and leaves the page as it
  was. A confirmed delete of the device X that succeeds, with no other change of the
  list between the click and the answer, issues one \<open>DELETE /devices/X\<close> and nothing
  else, and replaces the list the page holds by that list without the entries whose id
  is X, the others kept in their order; the list is not fetched again. The rendered rows
  are then the slice of the current page taken from the previously matching rows without
  those whose id is X, so that rows of the following page move up.
\<close>

theorem delete_then_render:
  "handleDelete False i out st = st
   \<and> (dp_devices st = JArr ds \<and> \<not> list_ex nullish ds \<longrightarrow>
        handleDelete True i (Some (Resolved r)) st =
          st\<lparr>dp_calls := dp_calls st @ [http DELETE (''/devices/'' @ i) JUndefined],
             dp_devices := JArr (filter (\<lambda>device. js_get device ''id'' \<noteq> JStr i) ds),
             dp_error := JNull\<rparr>)
   \<and> (dp_devices st = JArr ds \<and> filteredDevices lower st = Inr rows \<longrightarrow>
        paginatedDevices lower (handleDelete True i (Some (Resolved r)) st) =
          Inr (page_slice st (filter (\<lambda>device. js_get device ''id'' \<noteq> JStr i) rows)))"
  using handleDelete_declined handleDelete_succeeded rendered_after_delete by blast

theorem delete_then_render_witness:
  "handleDelete False ''1'' None seven_devices = seven_devices \<and>
   dp_devices (handleDelete True ''1'' (answered JNull) seven_devices) =
     JArr [device_no ''2'', device_no ''3'', device_no ''4'', device_no ''5'', device_no ''6'',
           device_no ''7''] \<and>
   dp_calls (handleDelete True ''1'' (answered JNull) seven_devices) =
     [http DELETE ''/devices/1'' JUndefined] \<and>
   paginatedDevices no_capitals (handleDelete True ''1'' (answered JNull) seven_devices) =
     Inr (page_slice seven_devices
            [device_no ''2'', device_no ''3'', device_no ''4'', device_no ''5'', device_no ''6'',
             device_no ''7''])"
proof -
  let ?ds = "[device_no ''1'', device_no ''2'', device_no ''3'', device_no ''4'', device_no ''5'',
          device_no ''6'', device_no ''7'']"
  let ?keep = "\<lambda>device. js_get device ''id'' \<noteq> JStr ''1''"
  let ?r = "\<lparr>status = 200, data = JNull\<rparr>"
  note t = delete_then_render [of "''1''" None seven_devices ?ds ?r no_capitals ?ds]
  have d: "dp_devices seven_devices = JArr ?ds" by (simp add: seven_devices_def)
  have n: "\<not> list_ex nullish ?ds" by (simp add: device_no_def)
  have f: "filter ?keep ?ds =
      [device_no ''2'', device_no ''3'', device_no ''4'', device_no ''5'', device_no ''6'',
       device_no ''7'']"
    by (simp add: device_no_def)
  have e1: "handleDelete False ''1'' None seven_devices = seven_devices"
    using t by blast
  have e2: "handleDelete True ''1'' (Some (Resolved ?r)) seven_devices =
      seven_devices\<lparr>dp_calls := dp_calls seven_devices @ [http DELETE (''/devices/'' @ ''1'') JUndefined],
         dp_devices := JArr (filter ?keep ?ds), dp_error := JNull\<rparr>"
    using t d n by blast
  have e3: "paginatedDevices no_capitals (handleDelete True ''1'' (Some (Resolved ?r)) seven_devices) =
      Inr (page_slice seven_devices (filter ?keep ?ds))"
    using t d seven_rows by blast
  have c: "dp_calls seven_devices = []" by (simp add: seven_devices_def)
  show ?thesis
    unfolding answered_def using e1 e3 by (simp only: e2 f) (simp add: c)
qed

section \<open>Properties of the route protection\<close>

lemma startsWith_slash: "startsWith p ''/'' \<Longrightarrow> \<exists>rest. p = CHR ''/'' # rest"
  by (cases p) (simp_all add: startsWith_def)

lemma startsWith_iff: "startsWith s p \<longleftrightarrow> (\<exists>t. s = p @ t)"
proof
  assume "startsWith s p"
  then have "s = p @ drop (length p) s"
    by (metis append_take_drop_id startsWith_def)
  then show "\<exists>t. s = p @ t" ..
next
  assume "\<exists>t. s = p @ t"
  then show "startsWith s p" by (auto simp: startsWith_def)
qed

lemma startsWith_append: "startsWith s (p @ q) \<Longrightarrow> startsWith s p"
  by (auto simp: startsWith_iff)

lemma matcher_iff:
  "matcher pathname \<longleftrightarrow>
     startsWith pathname ''/'' \<and> \<not> startsWith pathname ''/_next/static''
     \<and> \<not> startsWith pathname ''/_next/image'' \<and> \<not> favicon_ico (drop 1 pathname)
     \<and> \<not> startsWith pathname ''/public''"
  by (cases pathname) (auto simp: matcher_def startsWith_def)

lemma not_under_next:
  assumes "\<not> startsWith pathname ''/_next''"
  shows "\<not> startsWith pathname ''/_next/static''" and "\<not> startsWith pathname ''/_next/image''"
  using assms startsWith_append [of pathname "''/_next''" "''/static''"]
    startsWith_append [of pathname "''/_next''" "''/image''"]
  by auto

text \<open>
  C8, as stated: every navigation to a page that is not the login page, not under
  \<open>/api/\<close> and not an asset is redirected to the login page when no access token
  cookie is present. The middleware lets more than the assets through: a path under
  \<open>/devices/\<close> whose last segment contains a dot, a path that begins with \<open>/public\<close>
  without being in the public folder, a path that begins with \<open>/_next\<close> without being
  in the build output. None of the three is an asset, none is under \<open>/api/\<close>, and each
  is served without a token.
\<close>

theorem pages_served_without_token:
  "navigate ''/devices/a.b'' None = Next \<and> navigate ''/publications'' None = Next \<and>
   navigate ''/_nextish'' None = Next \<and>
   \<not> static_asset ''/devices/a.b'' \<and> \<not> static_asset ''/publications'' \<and>
   \<not> static_asset ''/_nextish'' \<and>
   \<not> startsWith ''/devices/a.b'' ''/api/'' \<and> \<not> startsWith ''/publications'' ''/api/'' \<and>
   \<not> startsWith ''/_nextish'' ''/api/''"
  by (simp add: navigate_def matcher_def middleware_def startsWith_def includes_dot_def
      favicon_ico_def static_asset_def)

text \<open>
  C8, amended: the navigations redirected to the login page are exactly those to a path
  that is not \<open>/login\<close>, does not begin with \<open>/api/\<close>, \<open>/_next\<close> or \<open>/public\<close>, contains
  no dot, does not begin with \<open>/favicon\<close>, any one character, \<open>ico\<close>, and comes with no
  access token cookie (or an empty one). Every other navigation passes: with any
  non-empty token, its content unread, and without a token on the paths excluded above.
  The dashboard, when it mounts without a token, goes to the login page and starts no
  fetch.
\<close>

theorem navigation_redirects_exactly:
  "navigate pathname token =
     (if startsWith pathname ''/'' \<and> pathname \<noteq> ''/login'' \<and> \<not> startsWith pathname ''/api/''
         \<and> \<not> startsWith pathname ''/_next'' \<and> \<not> includes_dot pathname
         \<and> \<not> startsWith pathname ''/public'' \<and> \<not> favicon_ico (drop 1 pathname)
         \<and> \<not> present token
      then Redirect ''/login'' else Next)
   \<and> (\<not> present token \<longrightarrow>
         dashboard_effect token stats devs st = st\<lparr>db_route := Some ''/login''\<rparr>)"
proof -
  have "navigate pathname token =
     (if startsWith pathname ''/'' \<and> pathname \<noteq> ''/login'' \<and> \<not> startsWith pathname ''/api/''
         \<and> \<not> startsWith pathname ''/_next'' \<and> \<not> includes_dot pathname
         \<and> \<not> startsWith pathname ''/public'' \<and> \<not> favicon_ico (drop 1 pathname)
         \<and> \<not> present token
      then Redirect ''/login'' else Next)"
  proof (cases "startsWith pathname ''/_next''")
    case True
    then show ?thesis by (simp add: navigate_def middleware_def)
  next
    case False
    with not_under_next [OF False] show ?thesis
      by (simp add: navigate_def middleware_def matcher_iff)
  qed
  then show ?thesis by (simp add: dashboard_effect_def)
qed

theorem navigation_redirects_exactly_witness:
  "navigate ''/dashboard'' None = Redirect ''/login'' \<and>
   navigate ''/dashboard'' (Some ''not a token'') = Next \<and>
   dashboard_effect None None None dashboard_initial =
     dashboard_initial\<lparr>db_route := Some ''/login''\<rparr>"
  using navigation_redirects_exactly [of "''/dashboard''" None None None dashboard_initial]
    navigation_redirects_exactly [of "''/dashboard''" "Some ''not a token''"]
  by (simp add: startsWith_def includes_dot_def favicon_ico_def)

end
